theory Spec2Isabelle
  imports Complex_Main "HOL-Library.AList"
begin

section \<open>County assignment of pharmacy points (scripts/assign_counties.py)\<close>

text \<open>
  The script decodes a TopoJSON topology into GeoJSON features, builds Shapely
  geometries from them, and assigns each input point to the county of its nearest
  geometry, accumulating a per-county histogram.

  JSON numbers are modelled as exact reals (the rounding of binary floating point is
  not modelled), Python's unbounded integers as \<open>int\<close> or \<open>nat\<close>, exceptions as the
  left summand of a sum type, and the insertion-ordered Python \<open>dict\<close> as an
  association list that is looked up with \<open>map_of\<close> and written with
  \<open>AList.update\<close> (which overwrites in place, or appends a new key at the end).
\<close>

subsection \<open>Data\<close>

datatype py_error = IndexError | KeyError | TypeError | ValueError

type_synonym point = "real \<times> real"
type_synonym coords = "point list"

text \<open>The \<open>arcs\<close> member of a geometry: nested JSON lists of integer arc references.
  A geometry without the member has \<open>Nest []\<close>, the default of \<open>geom.get("arcs", [])\<close>.
  The records below are the documents the script expects: the members it reads with
  \<open>[...]\<close> are present, positions are pairs, and a transform has its scale and
  translation.\<close>

datatype jarcs = Ref int | Nest "jarcs list"

text \<open>A feature identifier as \<open>geom.get("id")\<close> returns it: \<open>None\<close> when the member is
  missing or null, otherwise a JSON string or integer.\<close>

datatype json_id = IdNone | IdStr string | IdInt int

record transform =
  scale :: "real \<times> real"
  translate :: "real \<times> real"

record geometry =
  gtype :: string
  gid :: json_id
  gproperties :: "(string \<times> string) list"
  garcs :: jarcs

record topology =
  arcs :: "coords list"
  transform :: "transform option"
  objects :: "(string \<times> geometry list) list"

datatype geojson_geom = Polygon "coords list" | MultiPolygon "coords list list"

record feature =
  fid :: json_id
  properties :: "(string \<times> string) list"
  fgeometry :: geojson_geom

subsection \<open>Python built-ins used by the script\<close>

text \<open>\<open>xs[i]\<close>: a negative index counts from the end, an index out of range raises.\<close>

definition py_index :: "'a list \<Rightarrow> int \<Rightarrow> py_error + 'a" where
  "py_index xs i =
     (if 0 \<le> i \<and> i < int (length xs) then Inr (xs ! nat i)
      else if i < 0 \<and> - int (length xs) \<le> i then Inr (xs ! nat (int (length xs) + i))
      else Inl IndexError)"

text \<open>\<open>str\<close> of a non-negative integer, most significant digit first.\<close>

fun str_nat :: "nat \<Rightarrow> string" where
  "str_nat n =
     (if n < 10 then [''0123456789'' ! n]
      else str_nat (n div 10) @ [''0123456789'' ! (n mod 10)])"

declare str_nat.simps [simp del]

definition str_int :: "int \<Rightarrow> string" where
  "str_int i = (if i < 0 then CHR ''-'' # str_nat (nat (- i)) else str_nat (nat i))"

fun py_str :: "json_id \<Rightarrow> string" where
  "py_str IdNone = ''None''"
| "py_str (IdStr s) = s"
| "py_str (IdInt i) = str_int i"

text \<open>\<open>s.zfill(width)\<close>: a string at least \<open>width\<close> long is returned as it is; otherwise
  zeros are inserted on the left, after a leading sign character if there is one.\<close>

definition zfill :: "nat \<Rightarrow> string \<Rightarrow> string" where
  "zfill width s =
     (if width \<le> length s then s
      else (let fill = replicate (width - length s) CHR ''0''
            in case s of
                 [] \<Rightarrow> fill
               | c # rest \<Rightarrow>
                   if c = CHR ''+'' \<or> c = CHR ''-'' then c # fill @ rest else fill @ s))"

text \<open>\<open>max(xs)\<close> raises \<open>ValueError\<close> on an empty sequence.\<close>

definition py_max :: "nat list \<Rightarrow> py_error + nat" where
  "py_max xs = (case xs of [] \<Rightarrow> Inl ValueError | x # rest \<Rightarrow> Inr (fold max rest x))"

subsection \<open>TopoJSON to GeoJSON (topojson_to_geojson_features)\<close>

text \<open>The loop of \<open>decode_arc\<close> taken when a transform is present: running sums of the
  deltas, each mapped through the scale and the translation.\<close>

fun delta_decode :: "transform \<Rightarrow> real \<Rightarrow> real \<Rightarrow> coords \<Rightarrow> coords" where
  "delta_decode tr x y [] = []"
| "delta_decode tr x y ((dx, dy) # rest) =
     (let x' = x + dx; y' = y + dy
      in (x' * fst (scale tr) + fst (translate tr), y' * snd (scale tr) + snd (translate tr))
         # delta_decode tr x' y' rest)"

definition decode_arc :: "topology \<Rightarrow> int \<Rightarrow> py_error + coords" where
  "decode_arc topo arc_index =
     (let reverse = arc_index < 0;
          idx = (if reverse then - arc_index - 1 else arc_index)
      in case py_index (arcs topo) idx of
           Inl e \<Rightarrow> Inl e
         | Inr cs \<Rightarrow>
             (let decoded = (case transform topo of
                               Some tr \<Rightarrow> delta_decode tr 0 0 cs
                             | None \<Rightarrow> cs)
              in Inr (if reverse then rev decoded else decoded)))"

text \<open>The loop of \<open>decode_ring\<close>, with the coordinates accumulated so far. The first
  point of an arc is dropped when the accumulated list is non-empty. An element that
  is a list, not an integer, raises \<open>TypeError\<close> at \<open>arc_index < 0\<close>.\<close>

fun ring_loop :: "topology \<Rightarrow> jarcs list \<Rightarrow> coords \<Rightarrow> py_error + coords" where
  "ring_loop topo [] acc = Inr acc"
| "ring_loop topo (Nest xs # rest) acc = Inl TypeError"
| "ring_loop topo (Ref arc_idx # rest) acc =
     (case decode_arc topo arc_idx of
        Inl e \<Rightarrow> Inl e
      | Inr arc_coords \<Rightarrow>
          ring_loop topo rest (acc @ (if acc \<noteq> [] then drop 1 arc_coords else arc_coords)))"

fun decode_ring :: "topology \<Rightarrow> jarcs \<Rightarrow> py_error + coords" where
  "decode_ring topo (Ref r) = Inl TypeError"
| "decode_ring topo (Nest arc_indices) = ring_loop topo arc_indices []"

text \<open>The comprehension \<open>[decode_ring(ring) for ring in arcs_data]\<close>.\<close>

fun rings_loop :: "topology \<Rightarrow> jarcs list \<Rightarrow> py_error + coords list" where
  "rings_loop topo [] = Inr []"
| "rings_loop topo (ring # rest) =
     (case decode_ring topo ring of
        Inl e \<Rightarrow> Inl e
      | Inr c \<Rightarrow> (case rings_loop topo rest of Inl e \<Rightarrow> Inl e | Inr cs \<Rightarrow> Inr (c # cs)))"

fun decode_rings :: "topology \<Rightarrow> jarcs \<Rightarrow> py_error + coords list" where
  "decode_rings topo (Ref r) = Inl TypeError"
| "decode_rings topo (Nest rings) = rings_loop topo rings"

fun polygons_loop :: "topology \<Rightarrow> jarcs list \<Rightarrow> py_error + coords list list" where
  "polygons_loop topo [] = Inr []"
| "polygons_loop topo (polygon_arcs # rest) =
     (case decode_rings topo polygon_arcs of
        Inl e \<Rightarrow> Inl e
      | Inr rings \<Rightarrow>
          (case polygons_loop topo rest of Inl e \<Rightarrow> Inl e | Inr ps \<Rightarrow> Inr (rings # ps)))"

fun decode_polygons :: "topology \<Rightarrow> jarcs \<Rightarrow> py_error + coords list list" where
  "decode_polygons topo (Ref r) = Inl TypeError"
| "decode_polygons topo (Nest polys) = polygons_loop topo polys"

definition make_feature :: "geometry \<Rightarrow> geojson_geom \<Rightarrow> feature" where
  "make_feature geom g = \<lparr>fid = gid geom, properties = gproperties geom, fgeometry = g\<rparr>"

text \<open>The loop over \<open>obj["geometries"]\<close>; the features are returned in input order.\<close>

fun features_loop :: "topology \<Rightarrow> geometry list \<Rightarrow> py_error + feature list" where
  "features_loop topo [] = Inr []"
| "features_loop topo (geom # rest) =
     (if gtype geom = ''Polygon'' then
        (case decode_rings topo (garcs geom) of
           Inl e \<Rightarrow> Inl e
         | Inr rings \<Rightarrow>
             (case features_loop topo rest of
                Inl e \<Rightarrow> Inl e
              | Inr fs \<Rightarrow> Inr (make_feature geom (Polygon rings) # fs)))
      else if gtype geom = ''MultiPolygon'' then
        (case decode_polygons topo (garcs geom) of
           Inl e \<Rightarrow> Inl e
         | Inr polygons \<Rightarrow>
             (case features_loop topo rest of
                Inl e \<Rightarrow> Inl e
              | Inr fs \<Rightarrow> Inr (make_feature geom (MultiPolygon polygons) # fs)))
      else features_loop topo rest)"

definition topojson_to_geojson_features :: "topology \<Rightarrow> string \<Rightarrow> py_error + feature list" where
  "topojson_to_geojson_features topo object_name =
     (case map_of (objects topo) object_name of
        None \<Rightarrow> Inl KeyError
      | Some geoms \<Rightarrow> features_loop topo geoms)"

subsection \<open>The Shapely library, as the script uses it\<close>

text \<open>
  Shapely is not part of the repository: its operations are parameters of the model.
  \<open>shape\<close> returns \<open>None\<close> where the call (or the validity test that follows it inside
  the same \<open>try\<close>) raises. \<open>query_nearest\<close> stands for building the \<open>STRtree\<close> over the
  list of geometries and querying it with a point; it answers with one index or with an
  array of indices.
\<close>

datatype nearest = Index nat | Indices "nat list"

record 'g shapely =
  shape :: "geojson_geom \<Rightarrow> 'g option"
  is_valid :: "'g \<Rightarrow> bool"
  query_nearest :: "'g list \<Rightarrow> point \<Rightarrow> nearest"
  contains :: "'g \<Rightarrow> point \<Rightarrow> bool"
  distance :: "'g \<Rightarrow> point \<Rightarrow> real"

subsection \<open>The run (main)\<close>

text \<open>Building the geometries: a feature whose geometry cannot be built or is not valid
  is passed over; the identifier of a kept one is normalised with \<open>str(id).zfill(5)\<close>.\<close>

fun build_geometries :: "'g shapely \<Rightarrow> feature list \<Rightarrow> 'g list \<times> string list" where
  "build_geometries lib [] = ([], [])"
| "build_geometries lib (feat # rest) =
     (let (county_shapes, county_fips_list) = build_geometries lib rest
      in case shape lib (fgeometry feat) of
           None \<Rightarrow> (county_shapes, county_fips_list)
         | Some geom \<Rightarrow>
             if is_valid lib geom
             then (geom # county_shapes, zfill 5 (py_str (fid feat)) # county_fips_list)
             else (county_shapes, county_fips_list))"

text \<open>The index of the nearest geometry: \<open>idx[0]\<close> when the answer has a length.\<close>

definition nearest_index :: "'g shapely \<Rightarrow> 'g list \<Rightarrow> point \<Rightarrow> py_error + nat" where
  "nearest_index lib county_shapes pt =
     (case query_nearest lib county_shapes pt of
        Index i \<Rightarrow> Inr i
      | Indices ixs \<Rightarrow> py_index ixs 0)"

text \<open>The decision taken for one point: the county identifier it is assigned to, or
  \<open>None\<close> for the \<open>else\<close> branch. The tolerance is the literal \<open>0.01\<close>.\<close>

definition resolve ::
  "'g shapely \<Rightarrow> 'g list \<Rightarrow> string list \<Rightarrow> point \<Rightarrow> py_error + string option" where
  "resolve lib county_shapes county_fips_list pt =
     (case nearest_index lib county_shapes pt of
        Inl e \<Rightarrow> Inl e
      | Inr idx \<Rightarrow>
          (case py_index county_shapes (int idx) of
             Inl e \<Rightarrow> Inl e
           | Inr county_geom \<Rightarrow>
               if contains lib county_geom pt \<or> distance lib county_geom pt < 1 / 100
               then (case py_index county_fips_list (int idx) of
                       Inl e \<Rightarrow> Inl e
                     | Inr fips \<Rightarrow> Inr (Some fips))
               else Inr None))"

record run_state =
  density :: "(string \<times> nat list) list"
  assigned :: nat
  unassigned :: nat

definition initial_state :: run_state where
  "initial_state = \<lparr>density = [], assigned = 0, unassigned = 0\<rparr>"

text \<open>The increments applied to one county's vector \<open>[total, active, likelyActive,
  uncertain, likelyClosed]\<close>.\<close>

definition bump :: "nat list \<Rightarrow> int \<Rightarrow> nat list" where
  "bump v status =
     (let v1 = v[0 := v ! 0 + 1]
      in if 0 \<le> status \<and> status \<le> 3
         then v1[nat (status + 1) := v1 ! nat (status + 1) + 1]
         else v1)"

text \<open>The histogram update for an assigned point: the county's vector is created as five
  zeros when the key is new, then incremented. Every vector in the map has five
  entries, so the indices 0 to 4 are in range.\<close>

definition record_assignment ::
  "(string \<times> nat list) list \<Rightarrow> string \<Rightarrow> int \<Rightarrow> (string \<times> nat list) list" where
  "record_assignment d fips status =
     (let v = (case map_of d fips of None \<Rightarrow> [0, 0, 0, 0, 0] | Some v \<Rightarrow> v)
      in AList.update fips (bump v status) d)"

definition count_point :: "run_state \<Rightarrow> string option \<Rightarrow> int \<Rightarrow> run_state" where
  "count_point st r status =
     (case r of
        Some fips \<Rightarrow>
          st\<lparr>density := record_assignment (density st) fips status,
             assigned := assigned st + 1\<rparr>
      | None \<Rightarrow> st\<lparr>unassigned := unassigned st + 1\<rparr>)"

text \<open>The body of the assignment loop for one point \<open>(lon, lat, status)\<close>.\<close>

definition assign_point ::
  "'g shapely \<Rightarrow> 'g list \<Rightarrow> string list \<Rightarrow> run_state \<Rightarrow> real \<times> real \<times> int
     \<Rightarrow> py_error + run_state" where
  "assign_point lib county_shapes county_fips_list st p =
     (case p of (lon, lat, status) \<Rightarrow>
        (case resolve lib county_shapes county_fips_list (lon, lat) of
           Inl e \<Rightarrow> Inl e
         | Inr r \<Rightarrow> Inr (count_point st r status)))"

fun assign_loop ::
  "'g shapely \<Rightarrow> 'g list \<Rightarrow> string list \<Rightarrow> run_state \<Rightarrow> (real \<times> real \<times> int) list
     \<Rightarrow> py_error + run_state" where
  "assign_loop lib county_shapes county_fips_list st [] = Inr st"
| "assign_loop lib county_shapes county_fips_list st (p # rest) =
     (case assign_point lib county_shapes county_fips_list st p of
        Inl e \<Rightarrow> Inl e
      | Inr st' \<Rightarrow> assign_loop lib county_shapes county_fips_list st' rest)"

text \<open>What the run prints, and the histogram it writes. An exception ends the run: the
  result is then the exception alone, the lines printed before it are not kept and no
  histogram is written. Reading the point list and loading the topology happen outside
  the model; both are arguments of \<open>main\<close>.\<close>

record report =
  n_points :: nat
  n_features :: nat
  n_valid :: nat
  n_assigned :: nat
  n_unassigned :: nat
  n_counties :: nat
  max_total :: nat
  median_total :: nat

definition totals_of :: "(string \<times> nat list) list \<Rightarrow> nat list" where
  "totals_of d = map (\<lambda>kv. snd kv ! 0) d"

definition main ::
  "'g shapely \<Rightarrow> topology \<Rightarrow> (real \<times> real \<times> int) list
     \<Rightarrow> py_error + ((string \<times> nat list) list \<times> report)" where
  "main lib topo points =
     (case topojson_to_geojson_features topo ''counties'' of
        Inl e \<Rightarrow> Inl e
      | Inr county_features \<Rightarrow>
          (case build_geometries lib county_features of
             (county_shapes, county_fips_list) \<Rightarrow>
               (case assign_loop lib county_shapes county_fips_list initial_state points of
                  Inl e \<Rightarrow> Inl e
                | Inr st \<Rightarrow>
                    (let totals = totals_of (density st)
                     in case py_max totals of
                          Inl e \<Rightarrow> Inl e
                        | Inr m \<Rightarrow>
                            (case py_index (sort totals) (int (length totals div 2)) of
                               Inl e \<Rightarrow> Inl e
                             | Inr med \<Rightarrow>
                                 Inr (density st,
                                      \<lparr>n_points = length points,
                                       n_features = length county_features,
                                       n_valid = length county_shapes,
                                       n_assigned = assigned st,
                                       n_unassigned = unassigned st,
                                       n_counties = length (density st),
                                       max_total = m,
                                       median_total = med\<rparr>))))))"

subsection \<open>Notions used to state the properties\<close>

text \<open>The decision of the loop body for a point \<open>(lon, lat, status)\<close>.\<close>

definition outcome ::
  "'g shapely \<Rightarrow> 'g list \<Rightarrow> string list \<Rightarrow> real \<times> real \<times> int \<Rightarrow> py_error + string option" where
  "outcome lib county_shapes county_fips_list p =
     resolve lib county_shapes county_fips_list (fst p, fst (snd p))"

text \<open>The decoded coordinates of the arc behind a reference and their number (none, and
  0, when the reference cannot be decoded).\<close>

definition decoded_arc :: "topology \<Rightarrow> int \<Rightarrow> coords" where
  "decoded_arc topo r = (case decode_arc topo r of Inl e \<Rightarrow> [] | Inr cs \<Rightarrow> cs)"

definition arc_len :: "topology \<Rightarrow> int \<Rightarrow> nat" where
  "arc_len topo r = (case decode_arc topo r of Inl e \<Rightarrow> 0 | Inr cs \<Rightarrow> length cs)"

text \<open>All arc references below a geometry's \<open>arcs\<close> member, and whether a reference
  resolves to an index inside the arc table.\<close>

fun all_refs :: "jarcs \<Rightarrow> int list" where
  "all_refs (Ref r) = [r]"
| "all_refs (Nest xs) = concat (map all_refs xs)"

definition in_range :: "topology \<Rightarrow> int \<Rightarrow> bool" where
  "in_range topo r = ((if r < 0 then - r - 1 else r) < int (length (arcs topo)))"

definition recognised :: "geometry \<Rightarrow> bool" where
  "recognised geom = (gtype geom = ''Polygon'' \<or> gtype geom = ''MultiPolygon'')"

text \<open>The county's vector in the histogram, five zeros while the county has no record.\<close>

definition vec :: "(string \<times> nat list) list \<Rightarrow> string \<Rightarrow> nat list" where
  "vec d fips = (case map_of d fips of None \<Rightarrow> [0, 0, 0, 0, 0] | Some v \<Rightarrow> v)"

text \<open>The shape the decoder expects of a geometry's \<open>arcs\<close> member: a ring is a list of
  in-range integer references, a polygon a list of rings, a multipolygon a list of
  polygons. A geometry of another type is not looked into.\<close>

fun ref_ok :: "topology \<Rightarrow> jarcs \<Rightarrow> bool" where
  "ref_ok topo (Ref r) = in_range topo r"
| "ref_ok topo (Nest xs) = False"

fun ring_ok :: "topology \<Rightarrow> jarcs \<Rightarrow> bool" where
  "ring_ok topo (Ref r) = False"
| "ring_ok topo (Nest xs) = list_all (ref_ok topo) xs"

fun rings_ok :: "topology \<Rightarrow> jarcs \<Rightarrow> bool" where
  "rings_ok topo (Ref r) = False"
| "rings_ok topo (Nest rings) = list_all (ring_ok topo) rings"

fun polygons_ok :: "topology \<Rightarrow> jarcs \<Rightarrow> bool" where
  "polygons_ok topo (Ref r) = False"
| "polygons_ok topo (Nest polys) = list_all (rings_ok topo) polys"

definition geometry_ok :: "topology \<Rightarrow> geometry \<Rightarrow> bool" where
  "geometry_ok topo geom =
     (if gtype geom = ''Polygon'' then rings_ok topo (garcs geom)
      else if gtype geom = ''MultiPolygon'' then polygons_ok topo (garcs geom)
      else True)"

definition well_formed :: "topology \<Rightarrow> string \<Rightarrow> bool" where
  "well_formed topo object_name =
     (case map_of (objects topo) object_name of
        None \<Rightarrow> False
      | Some geoms \<Rightarrow> list_all (geometry_ok topo) geoms)"

text \<open>The points of a list that the loop body assigns to a given county.\<close>

definition assigned_to ::
  "'g shapely \<Rightarrow> 'g list \<Rightarrow> string list \<Rightarrow> string \<Rightarrow> (real \<times> real \<times> int) list
     \<Rightarrow> (real \<times> real \<times> int) list" where
  "assigned_to lib county_shapes county_fips_list fips pts =
     filter (\<lambda>p. outcome lib county_shapes county_fips_list p = Inr (Some fips)) pts"

text \<open>Every vector of the histogram has its five entries.\<close>

definition wf_density :: "(string \<times> nat list) list \<Rightarrow> bool" where
  "wf_density d = list_all (\<lambda>kv. length (snd kv) = 5) d"

subsection \<open>Concrete inputs\<close>

text \<open>The arc of the decoding example, with or without a transform.\<close>

definition arc_topology :: "transform option \<Rightarrow> topology" where
  "arc_topology tr = \<lparr>arcs = [[(0, 0), (2, 3), (-1, -1)]], transform = tr, objects = []\<rparr>"

definition triangle_topology :: topology where
  "triangle_topology = \<lparr>arcs = [[(0, 0), (1, 0), (0, 1)]], transform = None, objects = []\<rparr>"

text \<open>Two arcs of three points sharing an endpoint.\<close>

definition two_arc_topology :: topology where
  "two_arc_topology =
     \<lparr>arcs = [[(0, 0), (1, 0), (1, 1)], [(1, 1), (0, 1), (0, 0)]],
      transform = None, objects = []\<rparr>"

text \<open>A topology with one arc, the square of side 10, and the given counties.\<close>

definition square_topology :: "geometry list \<Rightarrow> topology" where
  "square_topology geoms =
     \<lparr>arcs = [[(0, 0), (0, 10), (10, 10), (10, 0), (0, 0)]],
      transform = None,
      objects = [(''counties'', geoms)]\<rparr>"

definition square_county :: "json_id \<Rightarrow> geometry" where
  "square_county i =
     \<lparr>gtype = ''Polygon'', gid = i, gproperties = [], garcs = Nest [Nest [Ref 0]]\<rparr>"

text \<open>The feature the square county decodes to, and four points: the centre, a point
  0.005 to the right of the square, a point 10 to the right of it, the centre again
  with a status outside 0..3.\<close>

definition square_feature :: "json_id \<Rightarrow> feature" where
  "square_feature i =
     \<lparr>fid = i, properties = [],
      fgeometry = Polygon [[(0, 0), (0, 10), (10, 10), (10, 0), (0, 0)]]\<rparr>"

definition sample_points :: "(real \<times> real \<times> int) list" where
  "sample_points = [(5, 5, 0), (10.005, 5, 1), (20, 5, 2), (5, 5, 7)]"

text \<open>Two counties: the square of side 10 and the same square moved 20 to the right.\<close>

definition east_county :: geometry where
  "east_county =
     \<lparr>gtype = ''Polygon'', gid = IdInt 1003, gproperties = [], garcs = Nest [Nest [Ref 1]]\<rparr>"

definition east_feature :: feature where
  "east_feature =
     \<lparr>fid = IdInt 1003, properties = [],
      fgeometry = Polygon [[(20, 0), (20, 10), (30, 10), (30, 0), (20, 0)]]\<rparr>"

definition two_county_topology :: topology where
  "two_county_topology =
     \<lparr>arcs = [[(0, 0), (0, 10), (10, 10), (10, 0), (0, 0)],
              [(20, 0), (20, 10), (30, 10), (30, 0), (20, 0)]],
      transform = None,
      objects = [(''counties'', [square_county (IdInt 1001), east_county])]\<rparr>"

definition broken_county :: geometry where
  "broken_county =
     \<lparr>gtype = ''Polygon'', gid = IdStr ''21111'', gproperties = [],
      garcs = Nest [Nest [Ref 5]]\<rparr>"

definition point_geometry :: geometry where
  "point_geometry =
     \<lparr>gtype = ''Point'', gid = IdStr ''21111'', gproperties = [], garcs = Nest []\<rparr>"

text \<open>
  A stand-in for Shapely on one family of geometries, to run the model on concrete
  inputs: a polygon with a single ring of five points that goes around an axis-aligned
  rectangle, kept as \<open>(xmin, ymin, xmax, ymax)\<close>. Every other geometry is refused.
  On a rectangle a point is contained when it is strictly inside, and the nearest query
  answers with the indices of the geometries at least distance. The distance is the
  larger of the horizontal and the vertical distance to the closed rectangle: this is
  the Euclidean distance for every point that is not diagonal to a corner, and the
  stand-in is only run on such points.
\<close>

type_synonym rect = "real \<times> real \<times> real \<times> real"

definition rect_shape :: "geojson_geom \<Rightarrow> rect option" where
  "rect_shape g =
     (case g of
        Polygon [[a, b, c, d, e]] \<Rightarrow>
          if e = a \<and> fst a \<noteq> fst c \<and> snd a \<noteq> snd c
             \<and> ((b = (fst a, snd c) \<and> d = (fst c, snd a))
                  \<or> (b = (fst c, snd a) \<and> d = (fst a, snd c)))
          then Some (min (fst a) (fst c), min (snd a) (snd c),
                     max (fst a) (fst c), max (snd a) (snd c))
          else None
      | _ \<Rightarrow> None)"

definition rect_contains :: "rect \<Rightarrow> point \<Rightarrow> bool" where
  "rect_contains r p =
     (case r of (x0, y0, x1, y1) \<Rightarrow> x0 < fst p \<and> fst p < x1 \<and> y0 < snd p \<and> snd p < y1)"

definition rect_distance :: "rect \<Rightarrow> point \<Rightarrow> real" where
  "rect_distance r p =
     (case r of (x0, y0, x1, y1) \<Rightarrow>
        (let dx = max (max (x0 - fst p) (fst p - x1)) 0;
             dy = max (max (y0 - snd p) (snd p - y1)) 0
         in max dx dy))"

definition rect_nearest :: "rect list \<Rightarrow> point \<Rightarrow> nearest" where
  "rect_nearest rs p =
     Indices (filter (\<lambda>i. list_all (\<lambda>r. rect_distance (rs ! i) p \<le> rect_distance r p) rs)
                [0..<length rs])"

definition rect_shapely :: "rect shapely" where
  "rect_shapely =
     \<lparr>shape = rect_shape, is_valid = (\<lambda>r. True), query_nearest = rect_nearest,
      contains = rect_contains, distance = rect_distance\<rparr>"

section \<open>Properties\<close>

subsection \<open>Indexing\<close>

lemma py_index_nat:
  "py_index xs (int n) = (if n < length xs then Inr (xs ! n) else Inl IndexError)"
  by (simp add: py_index_def)

lemma py_index_nonneg:
  "0 \<le> i \<Longrightarrow>
   py_index xs i = (if nat i < length xs then Inr (xs ! nat i) else Inl IndexError)"
  by (auto simp add: py_index_def Let_def)

subsection \<open>Arc decoding\<close>

lemma delta_decode_length: "length (delta_decode tr x y cs) = length cs"
  by (induction cs arbitrary: x y) (auto simp: Let_def)

lemma delta_decode_nth:
  "k < length cs \<Longrightarrow>
   delta_decode tr x y cs ! k =
     ((x + sum_list (map fst (take (Suc k) cs))) * fst (scale tr) + fst (translate tr),
      (y + sum_list (map snd (take (Suc k) cs))) * snd (scale tr) + snd (translate tr))"
proof (induction cs arbitrary: x y k)
  case Nil
  then show ?case by simp
next
  case (Cons c cs)
  obtain dx dy where c: "c = (dx, dy)" by (cases c)
  show ?case
  proof (cases k)
    case 0
    then show ?thesis by (simp add: c Let_def)
  next
    case (Suc j)
    with Cons.prems have "j < length cs" by simp
    from Cons.IH [OF this] show ?thesis
      by (simp add: c Suc Let_def add.assoc)
  qed
qed

text \<open>
  C2 (as amended). Decoding a non-negative, in-range arc reference succeeds. When the
  topology has no transform the arc's coordinates are returned as they are, with no
  delta summation; when it has one, the k-th output coordinate is the sum of the first
  k+1 deltas mapped through \<open>x * scaleX + translateX, y * scaleY + translateY\<close>.
\<close>

theorem decode_arc_by_transform:
  assumes "0 \<le> r" and "nat r < length (arcs topo)"
  shows "decode_arc topo r =
     Inr (case transform topo of
            None \<Rightarrow> arcs topo ! nat r
          | Some tr \<Rightarrow>
              map (\<lambda>k. (sum_list (map fst (take (Suc k) (arcs topo ! nat r))) * fst (scale tr)
                          + fst (translate tr),
                        sum_list (map snd (take (Suc k) (arcs topo ! nat r))) * snd (scale tr)
                          + snd (translate tr)))
                  [0..<length (arcs topo ! nat r)])"
proof (cases "transform topo")
  case None
  with assms show ?thesis
    by (simp add: decode_arc_def py_index_nonneg)
next
  case (Some tr)
  let ?cs = "arcs topo ! nat r"
  have "delta_decode tr 0 0 ?cs =
     map (\<lambda>k. (sum_list (map fst (take (Suc k) ?cs)) * fst (scale tr) + fst (translate tr),
               sum_list (map snd (take (Suc k) ?cs)) * snd (scale tr) + snd (translate tr)))
         [0..<length ?cs]"
    by (rule nth_equalityI) (simp_all add: delta_decode_length delta_decode_nth)
  with assms Some show ?thesis
    by (simp add: decode_arc_def py_index_nonneg)
qed

text \<open>The spec's example arc: unchanged without a transform, and
  \<open>[[10,10],[14,16],[12,14]]\<close> with scale \<open>[2,2]\<close> and translate \<open>[10,10]\<close>.\<close>

theorem decode_arc_by_transform_witness:
  "(0::int) \<le> 0 \<and> nat 0 < length (arcs (arc_topology None))
   \<and> decode_arc (arc_topology None) 0 = Inr [(0, 0), (2, 3), (-1, -1)]
   \<and> decode_arc (arc_topology (Some \<lparr>scale = (2, 2), translate = (10, 10)\<rparr>)) 0
       = Inr [(10, 10), (14, 16), (12, 14)]"
  using decode_arc_by_transform [of 0 "arc_topology None"]
    decode_arc_by_transform [of 0 "arc_topology (Some \<lparr>scale = (2, 2), translate = (10, 10)\<rparr>)"]
  by (simp add: arc_topology_def upt_rec)

text \<open>C2 as stated fails: without a transform the deltas \<open>[[0,0],[2,3],[-1,-1]]\<close> are
  not summed to \<open>[[0,0],[2,3],[1,2]]\<close>.\<close>

theorem decode_arc_no_transform_counterexample:
  "decode_arc (arc_topology None) 0 \<noteq> Inr [(0, 0), (2, 3), (1, 2)]"
  by (simp add: decode_arc_def arc_topology_def py_index_def)

text \<open>
  C8. Decoding a negative arc reference \<open>r\<close> is decoding the arc at index \<open>-(r+1)\<close> and
  reversing the resulting coordinate sequence (an error of the latter is the error of
  the former).
\<close>

theorem decode_arc_reversed:
  "r < 0 \<Longrightarrow> decode_arc topo r = map_sum id rev (decode_arc topo (- (r + 1)))"
  by (auto simp add: decode_arc_def Let_def split: sum.splits option.splits)

theorem decode_arc_reversed_witness:
  "(-1::int) < 0
   \<and> decode_arc triangle_topology 0 = Inr [(0, 0), (1, 0), (0, 1)]
   \<and> decode_arc triangle_topology (-1) = Inr [(0, 1), (1, 0), (0, 0)]"
  using decode_arc_reversed [of "-1" triangle_topology]
  by (simp add: decode_arc_def triangle_topology_def py_index_def)

subsection \<open>Ring assembly\<close>

lemma int_sum_list_map: "int (sum_list (map f xs)) = (\<Sum>x\<leftarrow>xs. int (f x))"
  by (induction xs) simp_all

lemma ring_loop_length:
  "ring_loop topo (map Ref rs) acc = Inr ring \<Longrightarrow> acc \<noteq> [] \<Longrightarrow>
   \<forall>r\<in>set rs. 0 < arc_len topo r \<Longrightarrow>
   length ring + length rs = length acc + sum_list (map (arc_len topo) rs)"
proof (induction rs arbitrary: acc)
  case Nil
  then show ?case by simp
next
  case (Cons r rs)
  from Cons.prems(1) obtain cs where cs: "decode_arc topo r = Inr cs"
    and loop: "ring_loop topo (map Ref rs) (acc @ drop 1 cs) = Inr ring"
    using Cons.prems(2) by (auto split: sum.splits)
  from cs Cons.prems(3) have len: "arc_len topo r = length cs" "0 < length cs"
    by (auto simp: arc_len_def)
  from Cons.prems(2) have "acc @ drop 1 cs \<noteq> []" by simp
  from Cons.IH [OF loop this] Cons.prems(3)
  have "length ring + length rs = length (acc @ drop 1 cs) + sum_list (map (arc_len topo) rs)"
    by simp
  with len show ?case by simp
qed

lemma ring_length_formula:
  assumes "decode_ring topo (Nest (map Ref rs)) = Inr ring"
    and "rs \<noteq> []"
    and "\<forall>r\<in>set rs. 0 < arc_len topo r"
  shows "int (length ring) = (\<Sum>r\<leftarrow>rs. int (arc_len topo r)) - (int (length rs) - 1)"
proof -
  from assms(2) obtain r rest where rs: "rs = r # rest" by (cases rs) auto
  from assms(1) obtain cs where cs: "decode_arc topo r = Inr cs"
    and loop: "ring_loop topo (map Ref rest) cs = Inr ring"
    by (auto simp: rs split: sum.splits)
  from cs assms(3) have len: "arc_len topo r = length cs" "cs \<noteq> []"
    by (auto simp: arc_len_def rs)
  from assms(3) have "\<forall>r\<in>set rest. 0 < arc_len topo r" by (simp add: rs)
  from ring_loop_length [OF loop len(2) this]
  have "length ring + length rest = length cs + sum_list (map (arc_len topo) rest)" .
  then have "int (length ring) + int (length rest)
      = int (length cs) + int (sum_list (map (arc_len topo) rest))"
    by (metis of_nat_add)
  then show ?thesis
    by (simp add: rs len(1) int_sum_list_map)
qed

lemma arc_len_positive:
  "0 < arc_len topo r \<Longrightarrow>
   decode_arc topo r = Inr (decoded_arc topo r) \<and> decoded_arc topo r \<noteq> []
   \<and> arc_len topo r = length (decoded_arc topo r)"
  by (cases "decode_arc topo r") (simp_all add: arc_len_def decoded_arc_def)

lemma ring_loop_content:
  "acc \<noteq> [] \<Longrightarrow> \<forall>r\<in>set rs. 0 < arc_len topo r \<Longrightarrow>
   ring_loop topo (map Ref rs) acc
     = Inr (acc @ concat (map (\<lambda>r. drop 1 (decoded_arc topo r)) rs))"
proof (induction rs arbitrary: acc)
  case Nil
  then show ?case by simp
next
  case (Cons r rs)
  from Cons.prems(2) have "0 < arc_len topo r" by simp
  from arc_len_positive [OF this]
  have d: "decode_arc topo r = Inr (decoded_arc topo r)" by simp
  from Cons.prems(1) have ne: "acc @ drop 1 (decoded_arc topo r) \<noteq> []" by simp
  from Cons.prems(2) have rest: "\<forall>r\<in>set rs. 0 < arc_len topo r" by simp
  from Cons.IH [OF ne rest] Cons.prems(1) show ?case by (simp add: d)
qed

text \<open>
  C3. A ring assembled from \<open>k \<ge> 1\<close> arcs, each with at least one coordinate, is the
  first decoded arc followed by every later decoded arc without its leading coordinate,
  so its length is \<open>sum(len(arc_i)) - (k-1)\<close>.
\<close>

theorem decode_ring_assembly:
  assumes "\<forall>q\<in>set (r # rest). 0 < arc_len topo q"
  shows "decode_ring topo (Nest (map Ref (r # rest)))
           = Inr (decoded_arc topo r @ concat (map (\<lambda>q. drop 1 (decoded_arc topo q)) rest))
         \<and> int (length (decoded_arc topo r
                          @ concat (map (\<lambda>q. drop 1 (decoded_arc topo q)) rest)))
             = (\<Sum>q\<leftarrow>r # rest. int (arc_len topo q)) - (int (length (r # rest)) - 1)"
proof -
  from assms have "0 < arc_len topo r" by simp
  from arc_len_positive [OF this]
  have d: "decode_arc topo r = Inr (decoded_arc topo r)" and ne: "decoded_arc topo r \<noteq> []"
    by simp_all
  from assms have rest: "\<forall>q\<in>set rest. 0 < arc_len topo q" by simp
  have ring: "decode_ring topo (Nest (map Ref (r # rest)))
           = Inr (decoded_arc topo r @ concat (map (\<lambda>q. drop 1 (decoded_arc topo q)) rest))"
    using ring_loop_content [OF ne rest] by (simp add: d)
  have nonempty: "r # rest \<noteq> []" by simp
  from ring_length_formula [OF ring nonempty assms] ring show ?thesis by simp
qed

text \<open>Two arcs of three points that share an endpoint give a ring of five points.\<close>

theorem decode_ring_assembly_witness:
  "arc_len two_arc_topology 0 = 3 \<and> arc_len two_arc_topology 1 = 3
   \<and> decoded_arc two_arc_topology 0 = [(0, 0), (1, 0), (1, 1)]
   \<and> decoded_arc two_arc_topology 1 = [(1, 1), (0, 1), (0, 0)]
   \<and> decode_ring two_arc_topology (Nest (map Ref [0, 1]))
       = Inr [(0, 0), (1, 0), (1, 1), (0, 1), (0, 0)]
   \<and> int (length [(0, 0), (1, 0), (1, 1), (0, 1), (0 :: real, 0 :: real)])
       = (int (arc_len two_arc_topology 0) + int (arc_len two_arc_topology 1)) - (2 - 1)"
proof -
  have l: "arc_len two_arc_topology 0 = 3" "arc_len two_arc_topology 1 = 3"
    by (simp_all add: arc_len_def decode_arc_def two_arc_topology_def py_index_def)
  have d: "decoded_arc two_arc_topology 0 = [(0, 0), (1, 0), (1, 1)]"
    "decoded_arc two_arc_topology 1 = [(1, 1), (0, 1), (0, 0)]"
    by (simp_all add: decoded_arc_def decode_arc_def two_arc_topology_def py_index_def)
  from l have a: "\<forall>q\<in>set [0, 1]. 0 < arc_len two_arc_topology q" by simp
  from decode_ring_assembly [OF a] l d show ?thesis by simp
qed

subsection \<open>Conversion succeeds exactly on well-formed input\<close>

lemma decode_arc_ok: "(\<exists>cs. decode_arc topo r = Inr cs) \<longleftrightarrow> in_range topo r"
  by (auto simp: decode_arc_def in_range_def py_index_def Let_def split: sum.splits if_splits)

lemma decode_arc_error: "decode_arc topo r = Inl e \<Longrightarrow> e = IndexError"
  by (auto simp: decode_arc_def py_index_def Let_def split: sum.splits if_splits)

lemma ring_loop_ok: "(\<exists>cs. ring_loop topo xs acc = Inr cs) \<longleftrightarrow> list_all (ref_ok topo) xs"
proof (induction xs arbitrary: acc)
  case Nil
  then show ?case by simp
next
  case (Cons a xs)
  show ?case
  proof (cases a)
    case (Ref r)
    show ?thesis
    proof (cases "decode_arc topo r")
      case (Inl e)
      with decode_arc_ok [of topo r] Ref show ?thesis by auto
    next
      case (Inr cs)
      with decode_arc_ok [of topo r] Ref Cons.IH show ?thesis by auto
    qed
  next
    case (Nest ys)
    then show ?thesis by simp
  qed
qed

lemma decode_ring_ok: "(\<exists>cs. decode_ring topo j = Inr cs) \<longleftrightarrow> ring_ok topo j"
  by (cases j) (simp_all add: ring_loop_ok)

lemma rings_loop_ok: "(\<exists>cs. rings_loop topo rs = Inr cs) \<longleftrightarrow> list_all (ring_ok topo) rs"
proof (induction rs)
  case Nil
  then show ?case by simp
next
  case (Cons r rs)
  with decode_ring_ok [of topo r] show ?case
    by (auto split: sum.splits)
qed

lemma decode_rings_ok: "(\<exists>cs. decode_rings topo j = Inr cs) \<longleftrightarrow> rings_ok topo j"
  by (cases j) (simp_all add: rings_loop_ok)

lemma polygons_loop_ok: "(\<exists>cs. polygons_loop topo ps = Inr cs) \<longleftrightarrow> list_all (rings_ok topo) ps"
proof (induction ps)
  case Nil
  then show ?case by simp
next
  case (Cons p ps)
  with decode_rings_ok [of topo p] show ?case
    by (auto split: sum.splits)
qed

lemma decode_polygons_ok: "(\<exists>cs. decode_polygons topo j = Inr cs) \<longleftrightarrow> polygons_ok topo j"
  by (cases j) (simp_all add: polygons_loop_ok)

lemma features_loop_ok:
  "(\<exists>fs. features_loop topo geoms = Inr fs) \<longleftrightarrow> list_all (geometry_ok topo) geoms"
proof (induction geoms)
  case Nil
  then show ?case by simp
next
  case (Cons g gs)
  with decode_rings_ok [of topo "garcs g"] decode_polygons_ok [of topo "garcs g"]
  show ?case
    by (auto simp: geometry_ok_def [of topo g] split: sum.splits)
qed

lemma conversion_ok:
  "(\<exists>fs. topojson_to_geojson_features topo name = Inr fs) \<longleftrightarrow> well_formed topo name"
  by (simp add: topojson_to_geojson_features_def well_formed_def features_loop_ok
      split: option.splits)

lemma ring_ok_refs: "ring_ok topo j \<Longrightarrow> r \<in> set (all_refs j) \<Longrightarrow> in_range topo r"
proof (cases j)
  case (Ref x)
  assume "ring_ok topo j" with Ref show ?thesis by simp
next
  case (Nest xs)
  assume ok: "ring_ok topo j" and r: "r \<in> set (all_refs j)"
  from r Nest obtain a where a: "a \<in> set xs" "r \<in> set (all_refs a)" by auto
  with ok Nest have "ref_ok topo a" by (simp add: list_all_iff)
  with a(2) show ?thesis by (cases a) simp_all
qed

lemma rings_ok_refs: "rings_ok topo j \<Longrightarrow> r \<in> set (all_refs j) \<Longrightarrow> in_range topo r"
proof (cases j)
  case (Ref x)
  assume "rings_ok topo j" with Ref show ?thesis by simp
next
  case (Nest xs)
  assume ok: "rings_ok topo j" and r: "r \<in> set (all_refs j)"
  from r Nest obtain a where a: "a \<in> set xs" "r \<in> set (all_refs a)" by auto
  with ok Nest have "ring_ok topo a" by (simp add: list_all_iff)
  from this a(2) show ?thesis by (rule ring_ok_refs)
qed

lemma polygons_ok_refs: "polygons_ok topo j \<Longrightarrow> r \<in> set (all_refs j) \<Longrightarrow> in_range topo r"
proof (cases j)
  case (Ref x)
  assume "polygons_ok topo j" with Ref show ?thesis by simp
next
  case (Nest xs)
  assume ok: "polygons_ok topo j" and r: "r \<in> set (all_refs j)"
  from r Nest obtain a where a: "a \<in> set xs" "r \<in> set (all_refs a)" by auto
  with ok Nest have "rings_ok topo a" by (simp add: list_all_iff)
  from this a(2) show ?thesis by (rule rings_ok_refs)
qed

lemma geometry_ok_refs:
  "geometry_ok topo g \<Longrightarrow> recognised g \<Longrightarrow> r \<in> set (all_refs (garcs g)) \<Longrightarrow> in_range topo r"
  by (auto simp: geometry_ok_def recognised_def split: if_splits
      intro: rings_ok_refs polygons_ok_refs)

lemma features_loop_skip: "features_loop topo geoms = features_loop topo (filter recognised geoms)"
  by (induction geoms) (auto simp: recognised_def split: sum.splits)

lemma features_loop_ids:
  "features_loop topo geoms = Inr fs \<Longrightarrow> map fid fs = map gid (filter recognised geoms)"
  by (induction geoms arbitrary: fs)
     (auto simp: recognised_def make_feature_def split: sum.splits if_splits)

lemma build_geometries_lengths:
  "build_geometries lib feats = (cs, fl) \<Longrightarrow> length fl = length cs"
  by (induction feats arbitrary: cs fl) (auto split: prod.splits option.splits if_splits)

lemma build_geometries_fips:
  "build_geometries lib feats = (cs, fl) \<Longrightarrow> f \<in> set fl \<Longrightarrow>
   \<exists>feat\<in>set feats. \<exists>g. shape lib (fgeometry feat) = Some g \<and> is_valid lib g
       \<and> f = zfill 5 (py_str (fid feat))"
  by (induction feats arbitrary: cs fl) (auto split: prod.splits option.splits if_splits)

lemma length_zfill: "length (zfill w s) = max w (length s)"
  by (auto simp: zfill_def Let_def split: list.splits)

lemma zfill_unsigned:
  "s = [] \<or> (hd s \<noteq> CHR ''+'' \<and> hd s \<noteq> CHR ''-'') \<Longrightarrow>
   zfill w s = replicate (w - length s) CHR ''0'' @ s"
  by (auto simp: zfill_def Let_def split: list.splits)

lemma resolve_in_fips: "resolve lib cs fl pt = Inr (Some f) \<Longrightarrow> f \<in> set fl"
  by (auto simp: resolve_def py_index_nat split: sum.splits if_splits)

lemma resolve_by_nearest:
  "nearest_index lib cs pt = Inr idx \<Longrightarrow> idx < length cs \<Longrightarrow> length fl = length cs \<Longrightarrow>
   resolve lib cs fl pt =
     Inr (if contains lib (cs ! idx) pt \<or> distance lib (cs ! idx) pt < 1 / 100
          then Some (fl ! idx) else None)"
  by (simp add: resolve_def py_index_nat)

subsection \<open>The histogram\<close>

lemma length_bump: "length (bump v s) = length v"
  by (simp add: bump_def Let_def)

lemma bump_total: "0 < length v \<Longrightarrow> bump v s ! 0 = v ! 0 + 1"
  by (auto simp add: bump_def Let_def nth_list_update)

lemma bump_bucket:
  "length v = 5 \<Longrightarrow> k < 4 \<Longrightarrow> bump v s ! Suc k = v ! Suc k + (if s = int k then 1 else 0)"
  by (auto simp add: bump_def Let_def nth_list_update)

lemma vec_record_assignment:
  "vec (record_assignment d f s) g = (if g = f then bump (vec d f) s else vec d g)"
  by (simp add: vec_def record_assignment_def update_conv')

lemma keys_record_assignment:
  "fst ` set (record_assignment d f s) = insert f (fst ` set d)"
  by (simp add: record_assignment_def dom_update)

lemma distinct_record_assignment:
  "distinct (map fst d) \<Longrightarrow> distinct (map fst (record_assignment d f s))"
  by (simp add: record_assignment_def distinct_update)

lemma set_update_cases: "x \<in> set (AList.update k v al) \<Longrightarrow> x = (k, v) \<or> x \<in> set al"
  by (induction al) (auto split: if_splits)

lemma wf_density_lookup: "wf_density d \<Longrightarrow> length (vec d f) = 5"
  by (auto simp: wf_density_def vec_def list_all_iff split: option.splits dest!: map_of_SomeD)

lemma wf_record_assignment: "wf_density d \<Longrightarrow> wf_density (record_assignment d f s)"
  unfolding record_assignment_def Let_def
  using wf_density_lookup [of d f]
  by (auto simp: wf_density_def list_all_iff vec_def length_bump dest!: set_update_cases)

lemma sum_update:
  "sum_list (map g (AList.update k v al)) + (case map_of al k of None \<Rightarrow> 0 | Some v0 \<Rightarrow> g (k, v0))
     = sum_list (map g al) + (g (k, v) :: nat)"
  by (induction al) auto

lemma totals_record_assignment:
  assumes "wf_density d"
  shows "sum_list (totals_of (record_assignment d f s)) = sum_list (totals_of d) + 1"
proof -
  let ?v = "vec d f"
  have b: "bump ?v s ! 0 = ?v ! 0 + 1"
    using wf_density_lookup [OF assms, of f] by (simp add: bump_total)
  have "sum_list (map (\<lambda>kv. snd kv ! 0) (AList.update f (bump ?v s) d))
          + (case map_of d f of None \<Rightarrow> 0 | Some v0 \<Rightarrow> v0 ! 0)
        = sum_list (map (\<lambda>kv. snd kv ! 0) d) + bump ?v s ! 0"
    using sum_update [of "\<lambda>kv. snd kv ! 0" f "bump ?v s" d]
    by (simp split: option.splits)
  moreover have "(case map_of d f of None \<Rightarrow> 0 | Some v0 \<Rightarrow> v0 ! 0) = ?v ! 0"
    by (simp add: vec_def split: option.splits)
  ultimately show ?thesis
    using b by (simp add: totals_of_def record_assignment_def vec_def)
qed

subsection \<open>The assignment loop\<close>

lemma assign_loop_step:
  "assign_loop lib cs fl st (p # ps) = Inr st' \<Longrightarrow>
   \<exists>r. outcome lib cs fl p = Inr r
       \<and> assign_loop lib cs fl (count_point st r (snd (snd p))) ps = Inr st'"
  by (cases p) (auto simp: assign_point_def outcome_def split: sum.splits)

lemma count_point_wf:
  "wf_density (density st) \<Longrightarrow> wf_density (density (count_point st r s))"
  by (cases r) (simp_all add: count_point_def wf_record_assignment)

lemma assign_loop_wf:
  "assign_loop lib cs fl st pts = Inr st' \<Longrightarrow> wf_density (density st) \<Longrightarrow>
   wf_density (density st')"
proof (induction pts arbitrary: st)
  case Nil
  then show ?case by simp
next
  case (Cons p ps)
  from assign_loop_step [OF Cons.prems(1)] obtain r where
    loop: "assign_loop lib cs fl (count_point st r (snd (snd p))) ps = Inr st'" by blast
  from Cons.IH [OF loop count_point_wf [OF Cons.prems(2)]] show ?case .
qed

lemma assign_loop_distinct:
  "assign_loop lib cs fl st pts = Inr st' \<Longrightarrow> distinct (map fst (density st)) \<Longrightarrow>
   distinct (map fst (density st'))"
proof (induction pts arbitrary: st)
  case Nil
  then show ?case by simp
next
  case (Cons p ps)
  from assign_loop_step [OF Cons.prems(1)] obtain r where
    loop: "assign_loop lib cs fl (count_point st r (snd (snd p))) ps = Inr st'" by blast
  have "distinct (map fst (density (count_point st r (snd (snd p)))))"
    using Cons.prems(2) by (cases r) (simp_all add: count_point_def distinct_record_assignment)
  from Cons.IH [OF loop this] show ?case .
qed

lemma assign_loop_vec:
  "assign_loop lib cs fl st pts = Inr st' \<Longrightarrow> wf_density (density st) \<Longrightarrow>
   vec (density st') f ! 0 = vec (density st) f ! 0 + length (assigned_to lib cs fl f pts)
   \<and> (\<forall>k<4. vec (density st') f ! Suc k
          = vec (density st) f ! Suc k
            + length (filter (\<lambda>p. snd (snd p) = int k) (assigned_to lib cs fl f pts)))"
proof (induction pts arbitrary: st)
  case Nil
  then show ?case by (simp add: assigned_to_def)
next
  case (Cons p ps)
  from assign_loop_step [OF Cons.prems(1)] obtain r where
    r: "outcome lib cs fl p = Inr r"
    and loop: "assign_loop lib cs fl (count_point st r (snd (snd p))) ps = Inr st'" by blast
  let ?st1 = "count_point st r (snd (snd p))"
  note IH = Cons.IH [OF loop count_point_wf [OF Cons.prems(2)]]
  have len: "length (vec (density st) f) = 5"
    by (rule wf_density_lookup [OF Cons.prems(2)])
  show ?case
  proof (cases "r = Some f")
    case True
    then have d1: "vec (density ?st1) f = bump (vec (density st) f) (snd (snd p))"
      by (simp add: count_point_def vec_record_assignment)
    from IH [unfolded d1] show ?thesis
      using len r True by (auto simp: bump_total bump_bucket assigned_to_def)
  next
    case False
    then have d1: "vec (density ?st1) f = vec (density st) f"
      by (cases r) (simp_all add: count_point_def vec_record_assignment)
    from IH [unfolded d1] show ?thesis
      using r False by (auto simp: assigned_to_def)
  qed
qed

lemma assign_loop_keys:
  "assign_loop lib cs fl st pts = Inr st' \<Longrightarrow>
   fst ` set (density st') = fst ` set (density st) \<union> {f. assigned_to lib cs fl f pts \<noteq> []}"
proof (induction pts arbitrary: st)
  case Nil
  then show ?case by (simp add: assigned_to_def)
next
  case (Cons p ps)
  from assign_loop_step [OF Cons.prems(1)] obtain r where
    r: "outcome lib cs fl p = Inr r"
    and loop: "assign_loop lib cs fl (count_point st r (snd (snd p))) ps = Inr st'" by blast
  from Cons.IH [OF loop] show ?case
    using r by (cases r) (auto simp: count_point_def keys_record_assignment assigned_to_def)
qed

lemma assign_loop_counters:
  "assign_loop lib cs fl st pts = Inr st' \<Longrightarrow> wf_density (density st) \<Longrightarrow>
   unassigned st' = unassigned st + length (filter (\<lambda>p. outcome lib cs fl p = Inr None) pts)
   \<and> assigned st'
       = assigned st + length (filter (\<lambda>p. \<exists>f. outcome lib cs fl p = Inr (Some f)) pts)
   \<and> sum_list (totals_of (density st')) + unassigned st'
       = sum_list (totals_of (density st)) + unassigned st + length pts
   \<and> sum_list (totals_of (density st')) + assigned st
       = sum_list (totals_of (density st)) + assigned st'"
proof (induction pts arbitrary: st)
  case Nil
  then show ?case by simp
next
  case (Cons p ps)
  from assign_loop_step [OF Cons.prems(1)] obtain r where
    r: "outcome lib cs fl p = Inr r"
    and loop: "assign_loop lib cs fl (count_point st r (snd (snd p))) ps = Inr st'" by blast
  note IH = Cons.IH [OF loop count_point_wf [OF Cons.prems(2)]]
  show ?case
  proof (cases r)
    case None
    with IH r show ?thesis by (simp add: count_point_def)
  next
    case (Some f)
    with IH r show ?thesis
      by (simp add: count_point_def totals_record_assignment [OF Cons.prems(2)])
  qed
qed

lemma assign_loop_total:
  "\<forall>p\<in>set pts. \<exists>r. outcome lib cs fl p = Inr r \<Longrightarrow>
   \<exists>st'. assign_loop lib cs fl st pts = Inr st'"
proof (induction pts arbitrary: st)
  case Nil
  then show ?case by simp
next
  case (Cons p ps)
  then obtain r where r: "outcome lib cs fl p = Inr r" by auto
  then have "assign_point lib cs fl st p = Inr (count_point st r (snd (snd p)))"
    by (cases p) (simp add: assign_point_def outcome_def)
  with Cons show ?case by simp
qed

subsection \<open>The concrete inputs, evaluated\<close>

lemma square_features:
  "topojson_to_geojson_features (square_topology [square_county i]) ''counties''
     = Inr [square_feature i]"
  by (simp add: topojson_to_geojson_features_def square_topology_def square_county_def
      decode_arc_def py_index_def make_feature_def square_feature_def)

lemma square_features_with_point:
  "topojson_to_geojson_features (square_topology [point_geometry, square_county i]) ''counties''
     = Inr [square_feature i]"
  by (simp add: topojson_to_geojson_features_def square_topology_def square_county_def
      point_geometry_def decode_arc_def py_index_def make_feature_def square_feature_def)

lemma square_features_broken:
  "topojson_to_geojson_features (square_topology [broken_county, square_county i]) ''counties''
     = Inl IndexError"
  by (simp add: topojson_to_geojson_features_def square_topology_def square_county_def
      broken_county_def decode_arc_def py_index_def)

lemma square_build:
  "build_geometries rect_shapely [square_feature i] = ([(0, 0, 10, 10)], [zfill 5 (py_str i)])"
  by (simp add: rect_shapely_def rect_shape_def square_feature_def)

lemma square_nearest: "nearest_index rect_shapely [(0, 0, 10, 10)] pt = Inr 0"
  by (simp add: nearest_index_def rect_shapely_def rect_nearest_def py_index_def)

lemma square_resolve:
  "resolve rect_shapely [(0, 0, 10, 10)] [f] (x, y) =
     Inr (if (0 < x \<and> x < 10 \<and> 0 < y \<and> y < 10)
             \<or> max (max (max (- x) (x - 10)) 0) (max (max (- y) (y - 10)) 0) < 1 / 100
          then Some f else None)"
  unfolding resolve_def square_nearest
  by (simp add: py_index_def rect_shapely_def rect_distance_def rect_contains_def Let_def)

lemma square_outcomes:
  "outcome rect_shapely [(0, 0, 10, 10)] [f] (5, 5, s) = Inr (Some f)"
  "outcome rect_shapely [(0, 0, 10, 10)] [f] (10.005, 5, s) = Inr (Some f)"
  "outcome rect_shapely [(0, 0, 10, 10)] [f] (20, 5, s) = Inr None"
  by (simp_all add: outcome_def square_resolve)

lemma square_step:
  "assign_point rect_shapely [(0, 0, 10, 10)] [f] st (x, y, s) =
     Inr (count_point st
           (if (0 < x \<and> x < 10 \<and> 0 < y \<and> y < 10)
               \<or> max (max (max (- x) (x - 10)) 0) (max (max (- y) (y - 10)) 0) < 1 / 100
            then Some f else None) s)"
  by (simp add: assign_point_def square_resolve)

lemma square_loop:
  "assign_loop rect_shapely [(0, 0, 10, 10)] [f] initial_state sample_points
     = Inr \<lparr>density = [(f, [3, 1, 1, 0, 0])], assigned = 3, unassigned = 1\<rparr>"
  by (simp add: sample_points_def square_step initial_state_def count_point_def
      record_assignment_def bump_def)

lemma square_loop_far:
  "assign_loop rect_shapely [(0, 0, 10, 10)] [f] initial_state [(20, 5, 2)]
     = Inr \<lparr>density = [], assigned = 0, unassigned = 1\<rparr>"
  by (simp add: square_step initial_state_def count_point_def)

lemma square_loop_centre:
  "assign_loop rect_shapely [(0, 0, 10, 10)] [f] initial_state [(5, 5, 0)]
     = Inr \<lparr>density = [(f, [1, 1, 0, 0, 0])], assigned = 1, unassigned = 0\<rparr>"
  by (simp add: square_step initial_state_def count_point_def record_assignment_def bump_def)

lemma fips_1001: "zfill 5 (py_str (IdInt 1001)) = ''01001''"
  by (simp add: zfill_def str_int_def str_nat.simps)

lemma main_from_parts:
  "topojson_to_geojson_features topo ''counties'' = Inr feats \<Longrightarrow>
   build_geometries lib feats = (cs, fl) \<Longrightarrow>
   assign_loop lib cs fl initial_state pts = Inr st \<Longrightarrow>
   py_max (totals_of (density st)) = Inr m \<Longrightarrow>
   py_index (sort (totals_of (density st))) (int (length (totals_of (density st)) div 2))
     = Inr med \<Longrightarrow>
   main lib topo pts =
     Inr (density st,
          \<lparr>n_points = length pts, n_features = length feats, n_valid = length cs,
           n_assigned = assigned st, n_unassigned = unassigned st,
           n_counties = length (density st), max_total = m, median_total = med\<rparr>)"
  by (simp add: main_def Let_def)

lemma main_conversion_error:
  "topojson_to_geojson_features topo ''counties'' = Inl e \<Longrightarrow> main lib topo pts = Inl e"
  by (simp add: main_def)

lemma main_empty_histogram:
  "topojson_to_geojson_features topo ''counties'' = Inr feats \<Longrightarrow>
   build_geometries lib feats = (cs, fl) \<Longrightarrow>
   assign_loop lib cs fl initial_state pts = Inr st \<Longrightarrow>
   density st = [] \<Longrightarrow>
   main lib topo pts = Inl ValueError"
  by (simp add: main_def Let_def totals_of_def py_max_def)

lemma square_build_1001:
  "build_geometries rect_shapely [square_feature (IdInt 1001)] = ([(0, 0, 10, 10)], [''01001''])"
  by (simp only: square_build fips_1001)

lemma main_square:
  "main rect_shapely (square_topology [square_county (IdInt 1001)]) sample_points
     = Inr ([(''01001'', [3, 1, 1, 0, 0])],
            \<lparr>n_points = 4, n_features = 1, n_valid = 1, n_assigned = 3, n_unassigned = 1,
             n_counties = 1, max_total = 3, median_total = 3\<rparr>)"
proof -
  let ?st = "\<lparr>density = [(''01001'', [3, 1, 1, 0, 0])], assigned = 3, unassigned = 1\<rparr>"
  have m: "py_max (totals_of (density ?st)) = Inr 3"
    by (simp add: totals_of_def py_max_def)
  have d: "py_index (sort (totals_of (density ?st)))
             (int (length (totals_of (density ?st)) div 2)) = Inr 3"
    by (simp add: totals_of_def py_index_def)
  from main_from_parts [OF square_features square_build_1001 square_loop m d]
  show ?thesis by (simp add: sample_points_def)
qed

lemma main_square_centre:
  "main rect_shapely (square_topology [square_county (IdInt 1001)]) [(5, 5, 0)]
     = Inr ([(''01001'', [1, 1, 0, 0, 0])],
            \<lparr>n_points = 1, n_features = 1, n_valid = 1, n_assigned = 1, n_unassigned = 0,
             n_counties = 1, max_total = 1, median_total = 1\<rparr>)"
proof -
  let ?st = "\<lparr>density = [(''01001'', [1, 1, 0, 0, 0])], assigned = 1, unassigned = 0\<rparr>"
  have m: "py_max (totals_of (density ?st)) = Inr 1"
    by (simp add: totals_of_def py_max_def)
  have d: "py_index (sort (totals_of (density ?st)))
             (int (length (totals_of (density ?st)) div 2)) = Inr 1"
    by (simp add: totals_of_def py_index_def)
  from main_from_parts [OF square_features square_build_1001 square_loop_centre m d]
  show ?thesis by simp
qed

lemma main_square_far:
  "main rect_shapely (square_topology [square_county (IdInt 1001)]) [(20, 5, 2)] = Inl ValueError"
  using main_empty_histogram [OF square_features square_build square_loop_far] by simp

subsection \<open>The assignment decision\<close>

lemma nearest_index_cases:
  "nearest_index lib cs pt =
     (case query_nearest lib cs pt of
        Index i \<Rightarrow> Inr i
      | Indices [] \<Rightarrow> Inl IndexError
      | Indices (i # others) \<Rightarrow> Inr i)"
  by (simp add: nearest_index_def py_index_def split: nearest.splits list.splits)

text \<open>
  The decision for a point that has a candidate. The candidate is the index the nearest
  query answers with, or the first index of a non-empty array it answers with. The point
  is assigned to that geometry's fips if and only if the geometry contains the point or
  is at a distance below 0.01 from it: then the county's vector is created if need be
  and incremented, and the assigned counter goes up by one. Otherwise only the
  unassigned counter goes up by one.
\<close>

theorem assignment_decision:
  assumes "build_geometries lib feats = (cs, fl)"
    and "query_nearest lib cs (lon, lat) = Index idx
         \<or> query_nearest lib cs (lon, lat) = Indices (idx # others)"
    and "idx < length cs"
  shows "assign_point lib cs fl st (lon, lat, status) =
           Inr (if contains lib (cs ! idx) (lon, lat) \<or> distance lib (cs ! idx) (lon, lat) < 1 / 100
                then st\<lparr>density := AList.update (fl ! idx)
                                      (bump (vec (density st) (fl ! idx)) status) (density st),
                        assigned := assigned st + 1\<rparr>
                else st\<lparr>unassigned := unassigned st + 1\<rparr>)"
proof -
  from assms(1) have len: "length fl = length cs" by (rule build_geometries_lengths)
  from assms(2) have n: "nearest_index lib cs (lon, lat) = Inr idx"
    by (auto simp: nearest_index_cases)
  from resolve_by_nearest [OF n assms(3) len]
  show ?thesis
    by (simp add: assign_point_def count_point_def record_assignment_def vec_def)
qed

lemma two_county_features:
  "topojson_to_geojson_features two_county_topology ''counties''
     = Inr [square_feature (IdInt 1001), east_feature]"
  by (simp add: topojson_to_geojson_features_def two_county_topology_def square_county_def
      east_county_def decode_arc_def py_index_def make_feature_def square_feature_def
      east_feature_def)

lemma fips_1003: "zfill 5 (py_str (IdInt 1003)) = ''01003''"
  by (simp add: zfill_def str_int_def str_nat.simps)

lemma two_county_build:
  "build_geometries rect_shapely [square_feature (IdInt 1001), east_feature]
     = ([(0, 0, 10, 10), (20, 0, 30, 10)], [''01001'', ''01003''])"
  using fips_1001 fips_1003
  by (simp add: rect_shapely_def rect_shape_def square_feature_def east_feature_def)

lemma two_county_nearest:
  "query_nearest rect_shapely [(0, 0, 10, 10), (20, 0, 30, 10)] (25, 5) = Indices [1]"
  "query_nearest rect_shapely [(0, 0, 10, 10), (20, 0, 30, 10)] (15, 5) = Indices [0, 1]"
  "query_nearest rect_shapely [(0, 0, 10, 10), (20, 0, 30, 10)] (10.005, 5) = Indices [0]"
  by (simp_all add: rect_shapely_def rect_nearest_def rect_distance_def upt_rec)

text \<open>With two counties: \<open>(25, 5)\<close> lies in the second and is assigned to it;
  \<open>(10.005, 5)\<close> is just outside the first, at distance 0.005, and is assigned to it;
  \<open>(15, 5)\<close> is 5 away from both and is counted unassigned.\<close>

theorem assignment_decision_witness:
  "build_geometries rect_shapely [square_feature (IdInt 1001), east_feature]
     = ([(0, 0, 10, 10), (20, 0, 30, 10)], [''01001'', ''01003''])
   \<and> query_nearest rect_shapely [(0, 0, 10, 10), (20, 0, 30, 10)] (25, 5) = Indices [1]
   \<and> contains rect_shapely (20, 0, 30, 10) (25, 5)
   \<and> assign_point rect_shapely [(0, 0, 10, 10), (20, 0, 30, 10)] [''01001'', ''01003'']
        initial_state (25, 5, 2)
       = Inr \<lparr>density = [(''01003'', [1, 0, 0, 1, 0])], assigned = 1, unassigned = 0\<rparr>
   \<and> query_nearest rect_shapely [(0, 0, 10, 10), (20, 0, 30, 10)] (10.005, 5) = Indices [0]
   \<and> \<not> contains rect_shapely (0, 0, 10, 10) (10.005, 5)
   \<and> distance rect_shapely (0, 0, 10, 10) (10.005, 5) = 0.005
   \<and> assign_point rect_shapely [(0, 0, 10, 10), (20, 0, 30, 10)] [''01001'', ''01003'']
        initial_state (10.005, 5, 1)
       = Inr \<lparr>density = [(''01001'', [1, 0, 1, 0, 0])], assigned = 1, unassigned = 0\<rparr>
   \<and> query_nearest rect_shapely [(0, 0, 10, 10), (20, 0, 30, 10)] (15, 5) = Indices [0, 1]
   \<and> \<not> contains rect_shapely (0, 0, 10, 10) (15, 5)
   \<and> distance rect_shapely (0, 0, 10, 10) (15, 5) = 5
   \<and> assign_point rect_shapely [(0, 0, 10, 10), (20, 0, 30, 10)] [''01001'', ''01003'']
        initial_state (15, 5, 0)
       = Inr \<lparr>density = [], assigned = 0, unassigned = 1\<rparr>"
proof -
  let ?cs = "[(0 :: real, 0 :: real, 10 :: real, 10 :: real), (20, 0, 30, 10)]"
  have i1: "(1 :: nat) < length ?cs" and i0: "(0 :: nat) < length ?cs" by simp_all
  have g: "contains rect_shapely (20, 0, 30, 10) (25, 5)"
    "\<not> contains rect_shapely (0, 0, 10, 10) (10.005, 5)"
    "distance rect_shapely (0, 0, 10, 10) (10.005, 5) = 0.005"
    "\<not> contains rect_shapely (0, 0, 10, 10) (15, 5)"
    "distance rect_shapely (0, 0, 10, 10) (15, 5) = 5"
    by (simp_all add: rect_shapely_def rect_contains_def rect_distance_def)
  have a: "assign_point rect_shapely ?cs [''01001'', ''01003''] initial_state (25, 5, 2)
       = Inr \<lparr>density = [(''01003'', [1, 0, 0, 1, 0])], assigned = 1, unassigned = 0\<rparr>"
    using assignment_decision [OF two_county_build disjI2 [OF two_county_nearest(1)] i1,
        of initial_state 2] g(1)
    by (simp add: initial_state_def vec_def bump_def)
  have b: "assign_point rect_shapely ?cs [''01001'', ''01003''] initial_state (10.005, 5, 1)
       = Inr \<lparr>density = [(''01001'', [1, 0, 1, 0, 0])], assigned = 1, unassigned = 0\<rparr>"
    using assignment_decision [OF two_county_build disjI2 [OF two_county_nearest(3)] i0,
        of initial_state 1] g(2,3)
    by (simp add: initial_state_def vec_def bump_def)
  have c: "assign_point rect_shapely ?cs [''01001'', ''01003''] initial_state (15, 5, 0)
       = Inr \<lparr>density = [], assigned = 0, unassigned = 1\<rparr>"
    using assignment_decision [OF two_county_build disjI2 [OF two_county_nearest(2)] i0,
        of initial_state 0] g(4,5)
    by (simp add: initial_state_def)
  from a b c g two_county_build two_county_nearest show ?thesis by simp
qed

lemma no_county_features:
  "topojson_to_geojson_features (square_topology []) ''counties'' = Inr []"
  by (simp add: topojson_to_geojson_features_def square_topology_def)

text \<open>
  C1. For every input point the claim has the point assigned or marked unassigned. The
  loop body does so whenever the nearest query answers with a candidate
  (\<open>assignment_decision\<close>). When the query answers with an empty array, \<open>idx[0]\<close>
  raises \<open>IndexError\<close>: the point is neither assigned nor marked unassigned, and the
  loop ends there.
\<close>

theorem no_candidate_raises:
  assumes "query_nearest lib cs (lon, lat) = Indices []"
  shows "assign_point lib cs fl st (lon, lat, status) = Inl IndexError
         \<and> assign_loop lib cs fl st ((lon, lat, status) # rest) = Inl IndexError"
  using assms by (simp add: assign_point_def resolve_def nearest_index_cases)

text \<open>A topology without any county: the index is empty and the run over one point ends
  with \<open>IndexError\<close>.\<close>

theorem no_candidate_raises_witness:
  "topojson_to_geojson_features (square_topology []) ''counties'' = Inr []
   \<and> build_geometries rect_shapely [] = ([], [])
   \<and> query_nearest rect_shapely [] (5, 5) = Indices []
   \<and> assign_point rect_shapely [] [] initial_state (5, 5, 0) = Inl IndexError
   \<and> main rect_shapely (square_topology []) [(5, 5, 0)] = Inl IndexError"
proof -
  have q: "query_nearest rect_shapely [] (5, 5) = Indices []"
    by (simp add: rect_shapely_def rect_nearest_def)
  note r = no_candidate_raises [OF q, of "[]" initial_state 0 "[]"]
  then have "main rect_shapely (square_topology []) [(5, 5, 0)] = Inl IndexError"
    by (simp add: main_def no_county_features)
  with r q show ?thesis by (simp add: no_county_features)
qed

subsection \<open>Aggregation\<close>

lemma wf_initial: "wf_density (density initial_state)"
  by (simp add: initial_state_def wf_density_def)

text \<open>
  C7. After the loop has run over a point list: every county record has five entries, its
  total is the number of points assigned to that county, and its bucket \<open>k + 1\<close> (for
  \<open>k\<close> from 0 to 3) is the number of those points whose status is \<open>k\<close>, so that a point
  with a status in 0..3 is counted in exactly one bucket and any other status in the
  total only; the keys are distinct, and the county totals plus the unassigned counter
  add up to the number of input points.
\<close>

theorem aggregation_counts:
  assumes "assign_loop lib cs fl initial_state pts = Inr st"
  shows "(\<forall>fips v. map_of (density st) fips = Some v \<longrightarrow>
            length v = 5
            \<and> v ! 0 = length (assigned_to lib cs fl fips pts)
            \<and> (\<forall>k<4. v ! Suc k
                  = length (filter (\<lambda>p. snd (snd p) = int k) (assigned_to lib cs fl fips pts))))
         \<and> distinct (map fst (density st))
         \<and> sum_list (totals_of (density st)) + unassigned st = length pts"
proof -
  have wf: "wf_density (density st)"
    by (rule assign_loop_wf [OF assms wf_initial])
  have z: "vec (density initial_state) f = [0, 0, 0, 0, 0]" for f
    by (simp add: vec_def initial_state_def)
  have rec: "length v = 5
        \<and> v ! 0 = length (assigned_to lib cs fl fips pts)
        \<and> (\<forall>k<4. v ! Suc k
              = length (filter (\<lambda>p. snd (snd p) = int k) (assigned_to lib cs fl fips pts)))"
    if "map_of (density st) fips = Some v" for fips v
  proof -
    from that have v: "vec (density st) fips = v" by (simp add: vec_def)
    from wf_density_lookup [OF wf, of fips] assign_loop_vec [OF assms wf_initial, of fips]
    show ?thesis unfolding v z by (auto simp: nth_Cons')
  qed
  have dist: "distinct (map fst (density st))"
    by (rule assign_loop_distinct [OF assms]) (simp add: initial_state_def)
  from assign_loop_counters [OF assms wf_initial]
  have "sum_list (totals_of (density st)) + unassigned st = length pts"
    by (simp add: initial_state_def totals_of_def)
  with rec dist show ?thesis by blast
qed

theorem aggregation_counts_witness:
  "assign_loop rect_shapely [(0, 0, 10, 10)] [''01001''] initial_state sample_points
     = Inr \<lparr>density = [(''01001'', [3, 1, 1, 0, 0])], assigned = 3, unassigned = 1\<rparr>
   \<and> length (assigned_to rect_shapely [(0, 0, 10, 10)] [''01001''] ''01001'' sample_points) = 3
   \<and> length (filter (\<lambda>p. snd (snd p) = 0)
        (assigned_to rect_shapely [(0, 0, 10, 10)] [''01001''] ''01001'' sample_points)) = 1
   \<and> length (filter (\<lambda>p. snd (snd p) = 2)
        (assigned_to rect_shapely [(0, 0, 10, 10)] [''01001''] ''01001'' sample_points)) = 0
   \<and> sum_list (totals_of [(''01001'', [3, 1, 1, 0, 0])]) + 1 = length sample_points"
proof -
  let ?st = "\<lparr>density = [(''01001'', [3, 1, 1, 0, 0])], assigned = 3, unassigned = 1\<rparr>"
  let ?to = "assigned_to rect_shapely [(0, 0, 10, 10)] [''01001''] ''01001'' sample_points"
  note run = square_loop [of "''01001''"]
  note th = aggregation_counts [OF run]
  have look: "map_of (density ?st) ''01001'' = Some [3, 1, 1, 0, 0]" by simp
  from th [THEN conjunct1, rule_format, OF look]
  have a: "length ?to = 3"
    and b: "\<forall>k<4. [3, 1, 1, 0, 0 :: nat] ! Suc k
              = length (filter (\<lambda>p. snd (snd p) = int k) ?to)"
    by simp_all
  from th have c: "sum_list (totals_of [(''01001'', [3, 1, 1, 0, 0])]) + 1 = length sample_points"
    by simp
  from b [rule_format, of 0] b [rule_format, of 2] a c run show ?thesis by simp
qed

text \<open>
  C9. A point that ends unassigned changes the unassigned counter only: the histogram and
  the assigned counter stay as they are. A county has a record in the histogram of a run
  exactly when some point of the run was assigned to it.
\<close>

theorem unassigned_frame:
  "(outcome lib cs fl p = Inr None \<longrightarrow>
      assign_point lib cs fl st p = Inr (st\<lparr>unassigned := unassigned st + 1\<rparr>))
   \<and> (assign_loop lib cs fl initial_state pts = Inr st' \<longrightarrow>
        (\<forall>fips. fips \<in> fst ` set (density st')
           \<longleftrightarrow> (\<exists>q\<in>set pts. outcome lib cs fl q = Inr (Some fips))))"
proof -
  have one: "assign_point lib cs fl st p = Inr (st\<lparr>unassigned := unassigned st + 1\<rparr>)"
    if "outcome lib cs fl p = Inr None"
    using that by (cases p) (simp add: assign_point_def outcome_def count_point_def)
  have two: "fips \<in> fst ` set (density st')
           \<longleftrightarrow> (\<exists>q\<in>set pts. outcome lib cs fl q = Inr (Some fips))"
    if "assign_loop lib cs fl initial_state pts = Inr st'" for fips
    using assign_loop_keys [OF that]
    by (auto simp: initial_state_def assigned_to_def filter_empty_conv)
  from one two show ?thesis by blast
qed

theorem unassigned_frame_witness:
  "outcome rect_shapely [(0, 0, 10, 10)] [''01001''] (20, 5, 2) = Inr None
   \<and> assign_point rect_shapely [(0, 0, 10, 10)] [''01001'']
        \<lparr>density = [(''01001'', [1, 1, 0, 0, 0])], assigned = 1, unassigned = 0\<rparr> (20, 5, 2)
       = Inr \<lparr>density = [(''01001'', [1, 1, 0, 0, 0])], assigned = 1, unassigned = 1\<rparr>
   \<and> assign_loop rect_shapely [(0, 0, 10, 10)] [''01001''] initial_state [(20, 5, 2)]
       = Inr \<lparr>density = [], assigned = 0, unassigned = 1\<rparr>
   \<and> outcome rect_shapely [(0, 0, 10, 10)] [''01001''] (5, 5, 0) = Inr (Some ''01001'')
   \<and> assign_loop rect_shapely [(0, 0, 10, 10)] [''01001''] initial_state [(5, 5, 0)]
       = Inr \<lparr>density = [(''01001'', [1, 1, 0, 0, 0])], assigned = 1, unassigned = 0\<rparr>"
  using unassigned_frame [of rect_shapely "[(0, 0, 10, 10)]" "[''01001'']" "(20, 5, 2)"
      "\<lparr>density = [(''01001'', [1, 1, 0, 0, 0])], assigned = 1, unassigned = 0\<rparr>"
      "[(20, 5, 2)]" "\<lparr>density = [], assigned = 0, unassigned = 1\<rparr>"]
    square_outcomes [of "''01001''"] square_loop_far [of "''01001''"]
    square_loop_centre [of "''01001''"]
  by simp

subsection \<open>Errors of the conversion\<close>

lemma ring_loop_error: "ring_loop topo xs acc = Inl e \<Longrightarrow> e = IndexError \<or> e = TypeError"
  by (induction topo xs acc rule: ring_loop.induct)
     (auto split: sum.splits dest: decode_arc_error)

lemma decode_ring_error: "decode_ring topo j = Inl e \<Longrightarrow> e = IndexError \<or> e = TypeError"
  by (cases j) (auto dest: ring_loop_error)

lemma rings_loop_error: "rings_loop topo rs = Inl e \<Longrightarrow> e = IndexError \<or> e = TypeError"
  by (induction rs) (auto split: sum.splits dest: decode_ring_error)

lemma decode_rings_error: "decode_rings topo j = Inl e \<Longrightarrow> e = IndexError \<or> e = TypeError"
  by (cases j) (auto dest: rings_loop_error)

lemma polygons_loop_error: "polygons_loop topo ps = Inl e \<Longrightarrow> e = IndexError \<or> e = TypeError"
  by (induction ps) (auto split: sum.splits dest: decode_rings_error)

lemma decode_polygons_error: "decode_polygons topo j = Inl e \<Longrightarrow> e = IndexError \<or> e = TypeError"
  by (cases j) (auto dest: polygons_loop_error)

lemma features_loop_error:
  "features_loop topo geoms = Inl e \<Longrightarrow> e = IndexError \<or> e = TypeError"
  by (induction geoms)
     (auto split: sum.splits if_splits dest: decode_rings_error decode_polygons_error)

text \<open>
  C4 (as amended). If a Polygon or MultiPolygon geometry of the \<open>counties\<close> object holds
  an arc reference that resolves outside the arc table, the conversion raises
  (\<open>IndexError\<close>, or \<open>TypeError\<close> when a malformed nesting is met first); nothing
  catches the exception, so no feature is returned and the run ends with that error.
\<close>

theorem out_of_range_aborts:
  assumes "map_of (objects topo) ''counties'' = Some geoms"
    and "g \<in> set geoms" and "recognised g"
    and "r \<in> set (all_refs (garcs g))" and "\<not> in_range topo r"
  shows "\<exists>e. (e = IndexError \<or> e = TypeError)
             \<and> topojson_to_geojson_features topo ''counties'' = Inl e
             \<and> main lib topo pts = Inl e"
proof -
  from assms(2-5) have "\<not> geometry_ok topo g"
    using geometry_ok_refs by blast
  with assms(1,2) have "\<not> well_formed topo ''counties''"
    by (auto simp: well_formed_def list_all_iff)
  then have "\<nexists>fs. topojson_to_geojson_features topo ''counties'' = Inr fs"
    by (simp add: conversion_ok)
  then obtain e where e: "topojson_to_geojson_features topo ''counties'' = Inl e"
    by (cases "topojson_to_geojson_features topo ''counties''") auto
  with assms(1) have "features_loop topo geoms = Inl e"
    by (simp add: topojson_to_geojson_features_def)
  from features_loop_error [OF this] e main_conversion_error [OF e] show ?thesis by blast
qed

theorem out_of_range_aborts_witness:
  "map_of (objects (square_topology [broken_county, square_county (IdInt 1001)])) ''counties''
     = Some [broken_county, square_county (IdInt 1001)]
   \<and> recognised broken_county
   \<and> all_refs (garcs broken_county) = [5]
   \<and> \<not> in_range (square_topology [broken_county, square_county (IdInt 1001)]) 5
   \<and> topojson_to_geojson_features (square_topology [broken_county, square_county (IdInt 1001)])
        ''counties'' = Inl IndexError
   \<and> main rect_shapely (square_topology [broken_county, square_county (IdInt 1001)]) sample_points
       = Inl IndexError"
proof -
  let ?topo = "square_topology [broken_county, square_county (IdInt 1001)]"
  have a: "map_of (objects ?topo) ''counties'' = Some [broken_county, square_county (IdInt 1001)]"
    by (simp add: square_topology_def)
  have b: "broken_county \<in> set [broken_county, square_county (IdInt 1001)]" by simp
  have c: "recognised broken_county" by (simp add: recognised_def broken_county_def)
  have d: "all_refs (garcs broken_county) = [5]" by (simp add: broken_county_def)
  then have d': "5 \<in> set (all_refs (garcs broken_county))" by simp
  have e: "\<not> in_range ?topo 5" by (simp add: in_range_def square_topology_def)
  from out_of_range_aborts [OF a b c d' e, of rect_shapely sample_points]
  show ?thesis using a c d e by (simp add: square_features_broken)
qed

text \<open>C4 as stated fails: with a broken geometry in front of the square county the
  conversion and the run end with \<open>IndexError\<close>; the square county is not processed,
  although alone it yields a histogram.\<close>

theorem out_of_range_not_isolated_counterexample:
  "topojson_to_geojson_features (square_topology [broken_county, square_county (IdInt 1001)])
     ''counties'' = Inl IndexError
   \<and> main rect_shapely (square_topology [broken_county, square_county (IdInt 1001)]) [(5, 5, 0)]
       = Inl IndexError
   \<and> main rect_shapely (square_topology [square_county (IdInt 1001)]) [(5, 5, 0)]
       = Inr ([(''01001'', [1, 1, 0, 0, 0])],
              \<lparr>n_points = 1, n_features = 1, n_valid = 1, n_assigned = 1, n_unassigned = 0,
               n_counties = 1, max_total = 1, median_total = 1\<rparr>)"
  by (simp add: square_features_broken main_conversion_error main_square_centre)

subsection \<open>Geometries of other types\<close>

lemma decode_arc_objects: "decode_arc (topo\<lparr>objects := x\<rparr>) r = decode_arc topo r"
  by (simp add: decode_arc_def Let_def split: sum.splits)

lemma ring_loop_objects: "ring_loop (topo\<lparr>objects := x\<rparr>) xs acc = ring_loop topo xs acc"
  by (induction topo xs acc rule: ring_loop.induct) (simp_all add: decode_arc_objects split: sum.splits)

lemma decode_ring_objects: "decode_ring (topo\<lparr>objects := x\<rparr>) j = decode_ring topo j"
  by (cases j) (simp_all add: ring_loop_objects)

lemma rings_loop_objects: "rings_loop (topo\<lparr>objects := x\<rparr>) rs = rings_loop topo rs"
  by (induction rs) (simp_all add: decode_ring_objects split: sum.splits)

lemma decode_rings_objects: "decode_rings (topo\<lparr>objects := x\<rparr>) j = decode_rings topo j"
  by (cases j) (simp_all add: rings_loop_objects)

lemma polygons_loop_objects: "polygons_loop (topo\<lparr>objects := x\<rparr>) ps = polygons_loop topo ps"
  by (induction ps) (simp_all add: decode_rings_objects split: sum.splits)

lemma decode_polygons_objects: "decode_polygons (topo\<lparr>objects := x\<rparr>) j = decode_polygons topo j"
  by (cases j) (simp_all add: polygons_loop_objects)

lemma features_loop_objects: "features_loop (topo\<lparr>objects := x\<rparr>) gs = features_loop topo gs"
  by (induction gs) (simp_all add: decode_rings_objects decode_polygons_objects split: sum.splits)

text \<open>
  C6 (as amended). A geometry whose type is neither \<open>Polygon\<close> nor \<open>MultiPolygon\<close> is
  skipped without error and left out of the features: the conversion gives what it gives
  on the recognised geometries alone, one feature per recognised geometry in input
  order, and the whole run is the run over the topology without the skipped geometries.
\<close>

theorem unrecognised_geometries_skipped:
  "features_loop topo geoms = features_loop topo (filter recognised geoms)
   \<and> (\<forall>fs. features_loop topo geoms = Inr fs \<longrightarrow> map fid fs = map gid (filter recognised geoms))
   \<and> (map_of (objects topo) ''counties'' = Some geoms \<longrightarrow>
        main lib (topo\<lparr>objects := [(''counties'', filter recognised geoms)]\<rparr>) pts
          = main lib topo pts)"
proof -
  have skip: "features_loop topo geoms = features_loop topo (filter recognised geoms)"
    by (rule features_loop_skip)
  have "topojson_to_geojson_features (topo\<lparr>objects := [(''counties'', filter recognised geoms)]\<rparr>)
            ''counties''
          = topojson_to_geojson_features topo ''counties''"
    if "map_of (objects topo) ''counties'' = Some geoms"
    using that skip by (simp add: topojson_to_geojson_features_def features_loop_objects)
  then have "main lib (topo\<lparr>objects := [(''counties'', filter recognised geoms)]\<rparr>) pts
          = main lib topo pts"
    if "map_of (objects topo) ''counties'' = Some geoms"
    using that by (simp add: main_def)
  with skip features_loop_ids show ?thesis by blast
qed

text \<open>A \<open>Point\<close> geometry in front of the square county: the features, and the whole run,
  are those of the topology without it.\<close>

theorem unrecognised_geometries_skipped_witness:
  "map_of (objects (square_topology [point_geometry, square_county (IdInt 1001)])) ''counties''
     = Some [point_geometry, square_county (IdInt 1001)]
   \<and> filter recognised [point_geometry, square_county (IdInt 1001)] = [square_county (IdInt 1001)]
   \<and> features_loop (square_topology [point_geometry, square_county (IdInt 1001)])
        [point_geometry, square_county (IdInt 1001)]
       = Inr [square_feature (IdInt 1001)]
   \<and> map fid [square_feature (IdInt 1001)] = [IdInt 1001]
   \<and> main rect_shapely (square_topology [square_county (IdInt 1001)]) sample_points
       = main rect_shapely (square_topology [point_geometry, square_county (IdInt 1001)])
           sample_points"
proof -
  let ?geoms = "[point_geometry, square_county (IdInt 1001)]"
  have a: "map_of (objects (square_topology ?geoms)) ''counties'' = Some ?geoms"
    by (simp add: square_topology_def)
  have b: "filter recognised ?geoms = [square_county (IdInt 1001)]"
    by (simp add: recognised_def point_geometry_def square_county_def)
  have c: "features_loop (square_topology ?geoms) ?geoms = Inr [square_feature (IdInt 1001)]"
    using square_features_with_point [of "IdInt 1001"] a
    by (simp add: topojson_to_geojson_features_def)
  have d: "(square_topology ?geoms)\<lparr>objects := [(''counties'', [square_county (IdInt 1001)])]\<rparr>
      = square_topology [square_county (IdInt 1001)]"
    by (simp add: square_topology_def)
  from unrecognised_geometries_skipped
    [of "square_topology ?geoms" ?geoms rect_shapely sample_points]
  have "main rect_shapely
          ((square_topology ?geoms)\<lparr>objects := [(''counties'', filter recognised ?geoms)]\<rparr>)
          sample_points
        = main rect_shapely (square_topology ?geoms) sample_points"
    using a by blast
  then show ?thesis
    using a b c d by (simp add: square_feature_def)
qed

text \<open>C6 as stated fails: the run over a topology with one skipped geometry returns and
  prints exactly what the run over the topology without it does, so no count of skipped
  items is reported.\<close>

theorem skipped_not_reported_counterexample:
  "main rect_shapely (square_topology [point_geometry, square_county (IdInt 1001)]) sample_points
     = Inr ([(''01001'', [3, 1, 1, 0, 0])],
            \<lparr>n_points = 4, n_features = 1, n_valid = 1, n_assigned = 3, n_unassigned = 1,
             n_counties = 1, max_total = 3, median_total = 3\<rparr>)
   \<and> main rect_shapely (square_topology [square_county (IdInt 1001)]) sample_points
     = Inr ([(''01001'', [3, 1, 1, 0, 0])],
            \<lparr>n_points = 4, n_features = 1, n_valid = 1, n_assigned = 3, n_unassigned = 1,
             n_counties = 1, max_total = 3, median_total = 3\<rparr>)
   \<and> length (filter (\<lambda>g. \<not> recognised g) [point_geometry, square_county (IdInt 1001)]) = 1
   \<and> length (filter (\<lambda>g. \<not> recognised g) [square_county (IdInt 1001)]) = 0"
proof -
  let ?st = "\<lparr>density = [(''01001'', [3, 1, 1, 0, 0])], assigned = 3, unassigned = 1\<rparr>"
  have m: "py_max (totals_of (density ?st)) = Inr 3"
    by (simp add: totals_of_def py_max_def)
  have d: "py_index (sort (totals_of (density ?st)))
             (int (length (totals_of (density ?st)) div 2)) = Inr 3"
    by (simp add: totals_of_def py_index_def)
  from main_from_parts [OF square_features_with_point square_build_1001 square_loop m d]
  have "main rect_shapely (square_topology [point_geometry, square_county (IdInt 1001)]) sample_points
     = Inr ([(''01001'', [3, 1, 1, 0, 0])],
            \<lparr>n_points = 4, n_features = 1, n_valid = 1, n_assigned = 3, n_unassigned = 1,
             n_counties = 1, max_total = 3, median_total = 3\<rparr>)"
    by (simp add: sample_points_def)
  moreover have
    "length (filter (\<lambda>g. \<not> recognised g) [point_geometry, square_county (IdInt 1001)]) = 1"
    "length (filter (\<lambda>g. \<not> recognised g) [square_county (IdInt 1001)]) = 0"
    by (simp_all add: recognised_def point_geometry_def square_county_def)
  ultimately show ?thesis
    using main_square by simp
qed

subsection \<open>Completion of the run\<close>

lemma py_max_nonempty: "xs \<noteq> [] \<Longrightarrow> py_max xs = Inr (Max (set xs))"
proof (cases xs)
  case Nil
  assume "xs \<noteq> []" with Nil show ?thesis by simp
next
  case (Cons a list)
  then show ?thesis using Max.set_eq_fold [of a list] by (simp add: py_max_def)
qed

lemma median_in_range:
  "xs \<noteq> [] \<Longrightarrow>
   py_index (sort xs) (int (length xs div 2)) = Inr (sort xs ! (length xs div 2))"
  by (simp add: py_index_nat)

lemma outcome_by_nearest:
  assumes "build_geometries lib feats = (cs, fl)"
    and "nearest_index lib cs (fst p, fst (snd p)) = Inr idx" and "idx < length cs"
  shows "\<exists>r. outcome lib cs fl p = Inr r"
  using resolve_by_nearest [OF assms(2,3) build_geometries_lengths [OF assms(1)]]
  by (simp add: outcome_def)

text \<open>
  When the topology converts, every point of the list finds a nearest candidate among
  the valid geometries, and at least one point is assigned, the run completes: it
  returns the (non-empty) histogram and reports the numbers of points, features, valid
  geometries, assigned and unassigned points and counties, with the maximum and the
  median county total.
\<close>

theorem run_completes:
  assumes feats: "topojson_to_geojson_features topo ''counties'' = Inr feats"
    and build: "build_geometries lib feats = (cs, fl)"
    and near: "\<forall>p\<in>set pts. \<exists>idx<length cs. nearest_index lib cs (fst p, fst (snd p)) = Inr idx"
    and some: "\<exists>p\<in>set pts. \<exists>fips. outcome lib cs fl p = Inr (Some fips)"
  shows "\<exists>d rep. main lib topo pts = Inr (d, rep)
           \<and> d \<noteq> []
           \<and> n_points rep = length pts
           \<and> n_features rep = length feats
           \<and> n_valid rep = length cs
           \<and> n_assigned rep
               = length (filter (\<lambda>p. \<exists>fips. outcome lib cs fl p = Inr (Some fips)) pts)
           \<and> n_unassigned rep = length (filter (\<lambda>p. outcome lib cs fl p = Inr None) pts)
           \<and> n_assigned rep + n_unassigned rep = length pts
           \<and> n_counties rep = length d
           \<and> max_total rep = Max (set (totals_of d))
           \<and> median_total rep = sort (totals_of d) ! (length d div 2)"
proof -
  from near have "\<forall>p\<in>set pts. \<exists>r. outcome lib cs fl p = Inr r"
    using outcome_by_nearest [OF build] by blast
  from assign_loop_total [OF this] obtain st where
    loop: "assign_loop lib cs fl initial_state pts = Inr st" by blast
  from some obtain fips where "assigned_to lib cs fl fips pts \<noteq> []"
    by (auto simp: assigned_to_def filter_empty_conv)
  with assign_loop_keys [OF loop] have "fips \<in> fst ` set (density st)" by simp
  then have ne: "density st \<noteq> []" by auto
  then have tne: "totals_of (density st) \<noteq> []" by (simp add: totals_of_def)
  have len: "length (totals_of (density st)) = length (density st)"
    by (simp add: totals_of_def)
  note c = assign_loop_counters [OF loop wf_initial]
  have sum: "assigned st = sum_list (totals_of (density st))"
    using c by (simp add: initial_state_def totals_of_def)
  from main_from_parts [OF feats build loop py_max_nonempty [OF tne] median_in_range [OF tne]]
  have "main lib topo pts =
     Inr (density st,
          \<lparr>n_points = length pts, n_features = length feats, n_valid = length cs,
           n_assigned = assigned st, n_unassigned = unassigned st,
           n_counties = length (density st),
           max_total = Max (set (totals_of (density st))),
           median_total = sort (totals_of (density st)) ! (length (density st) div 2)\<rparr>)"
    by (simp add: len)
  moreover from c have "assigned st
       = length (filter (\<lambda>p. \<exists>fips. outcome lib cs fl p = Inr (Some fips)) pts)"
    "unassigned st = length (filter (\<lambda>p. outcome lib cs fl p = Inr None) pts)"
    "assigned st + unassigned st = length pts"
    using sum by (simp_all add: initial_state_def totals_of_def)
  ultimately show ?thesis using ne by simp
qed

theorem run_completes_witness:
  "topojson_to_geojson_features (square_topology [square_county (IdInt 1001)]) ''counties''
     = Inr [square_feature (IdInt 1001)]
   \<and> build_geometries rect_shapely [square_feature (IdInt 1001)]
       = ([(0, 0, 10, 10)], [''01001''])
   \<and> list_all (\<lambda>p. nearest_index rect_shapely [(0, 0, 10, 10)] (fst p, fst (snd p)) = Inr 0)
        sample_points
   \<and> outcome rect_shapely [(0, 0, 10, 10)] [''01001''] (5, 5, 0) = Inr (Some ''01001'')
   \<and> main rect_shapely (square_topology [square_county (IdInt 1001)]) sample_points
     = Inr ([(''01001'', [3, 1, 1, 0, 0])],
            \<lparr>n_points = 4, n_features = 1, n_valid = 1, n_assigned = 3, n_unassigned = 1,
             n_counties = 1, max_total = 3, median_total = 3\<rparr>)"
proof -
  have near: "\<forall>p\<in>set sample_points.
      \<exists>idx<length [(0 :: real, 0 :: real, 10 :: real, 10 :: real)].
        nearest_index rect_shapely [(0, 0, 10, 10)] (fst p, fst (snd p)) = Inr idx"
    by (simp add: square_nearest)
  have some: "\<exists>p\<in>set sample_points. \<exists>fips.
      outcome rect_shapely [(0, 0, 10, 10)] [''01001''] p = Inr (Some fips)"
    using square_outcomes(1) [of "''01001''" 0] by (auto simp: sample_points_def)
  from run_completes [OF square_features square_build_1001 near some]
  have "\<exists>d rep. main rect_shapely (square_topology [square_county (IdInt 1001)]) sample_points
      = Inr (d, rep)" by blast
  then show ?thesis
    using square_features [of "IdInt 1001"] square_build_1001
      square_outcomes(1) [of "''01001''" 0] main_square
    by (simp add: square_nearest list_all_iff)
qed

text \<open>
  C5. The claim has every run complete, also one in which no point is assigned. Such a
  run does not: when the topology converts and every point of the list (if any) ends
  unassigned, the histogram is empty and \<open>max(totals)\<close> raises \<open>ValueError\<close>, after the
  loop and before the histogram is written.
\<close>

theorem empty_histogram_raises:
  assumes "topojson_to_geojson_features topo ''counties'' = Inr feats"
    and "build_geometries lib feats = (cs, fl)"
    and "\<forall>p\<in>set pts. outcome lib cs fl p = Inr None"
  shows "main lib topo pts = Inl ValueError"
proof -
  from assms(3) have "\<forall>p\<in>set pts. \<exists>r. outcome lib cs fl p = Inr r" by simp
  from assign_loop_total [OF this] obtain st where
    loop: "assign_loop lib cs fl initial_state pts = Inr st" by blast
  from assms(3) have "assigned_to lib cs fl f pts = []" for f
    by (auto simp: assigned_to_def filter_empty_conv)
  with assign_loop_keys [OF loop] have "fst ` set (density st) = {}"
    by (simp add: initial_state_def)
  then have "density st = []" by simp
  from main_empty_histogram [OF assms(1,2) loop this] show ?thesis .
qed

text \<open>One point 10 away from the only county, and the empty point list.\<close>

theorem empty_histogram_raises_witness:
  "topojson_to_geojson_features (square_topology [square_county (IdInt 1001)]) ''counties''
     = Inr [square_feature (IdInt 1001)]
   \<and> build_geometries rect_shapely [square_feature (IdInt 1001)]
       = ([(0, 0, 10, 10)], [''01001''])
   \<and> outcome rect_shapely [(0, 0, 10, 10)] [''01001''] (20, 5, 2) = Inr None
   \<and> assign_loop rect_shapely [(0, 0, 10, 10)] [''01001''] initial_state [(20, 5, 2)]
       = Inr \<lparr>density = [], assigned = 0, unassigned = 1\<rparr>
   \<and> main rect_shapely (square_topology [square_county (IdInt 1001)]) [(20, 5, 2)]
       = Inl ValueError
   \<and> main rect_shapely (square_topology [square_county (IdInt 1001)]) [] = Inl ValueError"
proof -
  have far: "\<forall>p\<in>set [(20, 5, 2)]. outcome rect_shapely [(0, 0, 10, 10)] [''01001''] p = Inr None"
    by (simp add: square_outcomes)
  have none: "\<forall>p\<in>set []. outcome rect_shapely [(0, 0, 10, 10)] [''01001''] p = Inr None"
    by simp
  from empty_histogram_raises [OF square_features square_build_1001 far]
    empty_histogram_raises [OF square_features square_build_1001 none]
    square_features [of "IdInt 1001"] square_build_1001
    square_outcomes(3) [of "''01001''" 2] square_loop_far [of "''01001''"]
  show ?thesis by simp
qed

subsection \<open>County identifiers\<close>

lemma outcome_in_fips: "outcome lib cs fl p = Inr (Some f) \<Longrightarrow> f \<in> set fl"
  by (simp add: outcome_def resolve_in_fips)

lemma main_keys:
  assumes "main lib topo pts = Inr (d, rep)"
  shows "\<exists>feats cs fl. topojson_to_geojson_features topo ''counties'' = Inr feats
           \<and> build_geometries lib feats = (cs, fl) \<and> fst ` set d \<subseteq> set fl"
proof -
  from assms obtain feats where f: "topojson_to_geojson_features topo ''counties'' = Inr feats"
    by (auto simp: main_def split: sum.splits)
  obtain cs fl where b: "build_geometries lib feats = (cs, fl)"
    by (cases "build_geometries lib feats")
  from assms f b obtain st where
    l: "assign_loop lib cs fl initial_state pts = Inr st" and d: "d = density st"
    by (auto simp: main_def Let_def split: sum.splits)
  from assign_loop_keys [OF l] have "fst ` set d \<subseteq> set fl"
    by (auto simp: d initial_state_def assigned_to_def filter_empty_conv dest: outcome_in_fips)
  with f b show ?thesis by blast
qed

text \<open>
  C10 (as amended). Every key of the output histogram is \<open>str(id).zfill(5)\<close> for the
  identifier of a feature whose geometry was built and valid. Its length is the larger
  of 5 and the length of \<open>str(id)\<close>: exactly 5 characters when \<open>str(id)\<close> has at most 5,
  longer otherwise. A missing identifier gives \<open>0None\<close>; unless \<open>str(id)\<close> starts with
  a sign, the key is \<open>str(id)\<close> with zeros put in front.
\<close>

theorem fips_keys_zero_filled:
  assumes "main lib topo pts = Inr (d, rep)" and "k \<in> fst ` set d"
  shows "\<exists>feats feat g. topojson_to_geojson_features topo ''counties'' = Inr feats
           \<and> feat \<in> set feats
           \<and> shape lib (fgeometry feat) = Some g \<and> is_valid lib g
           \<and> k = zfill 5 (py_str (fid feat))
           \<and> length k = max 5 (length (py_str (fid feat)))
           \<and> (fid feat = IdNone \<longrightarrow> k = ''0None'')
           \<and> (length (py_str (fid feat)) \<le> 5 \<longrightarrow> length k = 5)
           \<and> (py_str (fid feat) = [] \<or> hd (py_str (fid feat)) \<notin> {CHR ''+'', CHR ''-''} \<longrightarrow>
                k = replicate (5 - length (py_str (fid feat))) CHR ''0'' @ py_str (fid feat))"
proof -
  from main_keys [OF assms(1)] assms(2) obtain feats cs fl where
    f: "topojson_to_geojson_features topo ''counties'' = Inr feats"
    and b: "build_geometries lib feats = (cs, fl)" and k: "k \<in> set fl" by blast
  from build_geometries_fips [OF b k] obtain feat g where
    feat: "feat \<in> set feats" "shape lib (fgeometry feat) = Some g" "is_valid lib g"
      "k = zfill 5 (py_str (fid feat))" by blast
  have "fid feat = IdNone \<longrightarrow> k = ''0None''"
    by (simp add: feat(4) zfill_def)
  moreover have "py_str (fid feat) = [] \<or> hd (py_str (fid feat)) \<notin> {CHR ''+'', CHR ''-''} \<longrightarrow>
      k = replicate (5 - length (py_str (fid feat))) CHR ''0'' @ py_str (fid feat)"
    using zfill_unsigned [of "py_str (fid feat)" 5] by (auto simp: feat(4))
  ultimately show ?thesis
    using f feat by (auto simp: length_zfill)
qed

theorem fips_keys_zero_filled_witness:
  "main rect_shapely (square_topology [square_county (IdInt 1001)]) sample_points
     = Inr ([(''01001'', [3, 1, 1, 0, 0])],
            \<lparr>n_points = 4, n_features = 1, n_valid = 1, n_assigned = 3, n_unassigned = 1,
             n_counties = 1, max_total = 3, median_total = 3\<rparr>)
   \<and> ''01001'' \<in> fst ` set [(''01001'', [3, 1, 1, 0, 0 :: nat])]
   \<and> ''01001'' = zfill 5 (py_str (IdInt 1001))
   \<and> zfill 5 (py_str IdNone) = ''0None''
   \<and> zfill 5 (py_str (IdInt (- 5))) = ''-0005''"
proof -
  have z: "zfill 5 (py_str IdNone) = ''0None''" "zfill 5 (py_str (IdInt (- 5))) = ''-0005''"
    by (simp_all add: zfill_def str_int_def str_nat.simps eval_nat_numeral)
  from fips_keys_zero_filled [OF main_square, of "''01001''"] main_square fips_1001 z
  show ?thesis by simp
qed

text \<open>C10 as stated fails: an identifier of six characters is kept as it is, and the key
  has six characters.\<close>

theorem long_identifier_counterexample:
  "main rect_shapely (square_topology [square_county (IdStr ''123456'')]) [(5, 5, 0)]
     = Inr ([(''123456'', [1, 1, 0, 0, 0])],
            \<lparr>n_points = 1, n_features = 1, n_valid = 1, n_assigned = 1, n_unassigned = 0,
             n_counties = 1, max_total = 1, median_total = 1\<rparr>)
   \<and> length ''123456'' \<noteq> 5"
proof -
  let ?st = "\<lparr>density = [(''123456'', [1, 1, 0, 0, 0])], assigned = 1, unassigned = 0\<rparr>"
  have b: "build_geometries rect_shapely [square_feature (IdStr ''123456'')]
      = ([(0, 0, 10, 10)], [''123456''])"
    using square_build [of "IdStr ''123456''"] by (simp add: zfill_def)
  have m: "py_max (totals_of (density ?st)) = Inr 1"
    by (simp add: totals_of_def py_max_def)
  have d: "py_index (sort (totals_of (density ?st)))
             (int (length (totals_of (density ?st)) div 2)) = Inr 1"
    by (simp add: totals_of_def py_index_def)
  from main_from_parts [OF square_features b square_loop_centre m d]
  show ?thesis by simp
qed

end
